theory Spec2Isabelle
  imports Main "HOL-Library.Char_ord" "HOL-Library.List_Lexorder" "HOL-Library.AList"
begin

section \<open>The trigger engine of \<^verbatim>\<open>ejenti/pulse_modules/tasksTrigger.py\<close>\<close>

text \<open>
  A shallow embedding of the class \<^verbatim>\<open>TasksTrigger\<close>. Every method that the properties
  below talk about is a HOL function with the method's name. What a method does besides
  returning a value (writing a signature file, logging, calling the broker, the status
  file creator or the scheduler) is explicit: a method takes the \<open>world\<close> it runs in and
  returns the world it leaves. What a method reads from outside the process (the archive
  server, the back-fill table, the clock, the permissions of the file system) is read
  from an \<open>env\<close>. An exception that leaves a method is the left summand of its result.

  Exceptions are modelled where the source handles them or where the Python library is
  sure to raise: \<^verbatim>\<open>urllib2.urlopen\<close> (network failure, or a URL that is \<^verbatim>\<open>None\<close>),
  \<^verbatim>\<open>os.remove\<close> and \<^verbatim>\<open>os.makedirs\<close> inside \<^verbatim>\<open>check_folder\<close>, \<^verbatim>\<open>.split\<close> on a value that
  is not a string, and an attribute read on \<^verbatim>\<open>None\<close>. Calls to the collaborators that are
  not part of this file (the Pulse publisher, the status file creator, the scheduler,
  the back-fill table helper) are recorded in the order in which they are made and are
  taken to return.
\<close>

subsection \<open>Python strings\<close>

definition newline :: char where
  "newline = CHR 0x0A"

definition dquote :: char where
  "dquote = CHR 0x22"

text \<open>\<^verbatim>\<open>s.startswith(p)\<close> and \<^verbatim>\<open>s.endswith(p)\<close>.\<close>

definition startswith :: "string \<Rightarrow> string \<Rightarrow> bool" where
  "startswith s p = (take (length p) s = p)"

definition endswith :: "string \<Rightarrow> string \<Rightarrow> bool" where
  "endswith s p = (length p \<le> length s \<and> drop (length s - length p) s = p)"

text \<open>\<^verbatim>\<open>s.split(sep)\<close> for a separator of one character: the result is never empty.\<close>

fun split_chr :: "char \<Rightarrow> string \<Rightarrow> string list" where
  "split_chr sep [] = [[]]"
| "split_chr sep (c # cs) =
     (if c = sep then [] # split_chr sep cs
      else (case split_chr sep cs of
              [] \<Rightarrow> [[c]]
            | x # xs \<Rightarrow> (c # x) # xs))"

text \<open>\<^verbatim>\<open>f.readline()\<close> on a freshly opened file: the first line, its newline included.\<close>

fun readline :: "string \<Rightarrow> string" where
  "readline [] = []"
| "readline (c # cs) = (if c = newline then [c] else c # readline cs)"

text \<open>\<^verbatim>\<open>f.readlines()\<close>: all lines, each with its newline.\<close>

fun readlines :: "string \<Rightarrow> string list" where
  "readlines [] = []"
| "readlines (c # cs) =
     (if c = newline then [c] # readlines cs
      else (case readlines cs of
              [] \<Rightarrow> [[c]]
            | l # ls \<Rightarrow> (c # l) # ls))"

text \<open>
  \<^verbatim>\<open>'{}'.format(i)\<close> for an integer: decimal digits, with a minus sign when negative.
\<close>

function str_nat :: "nat \<Rightarrow> string" where
  "str_nat n =
     (if n < 10 then [char_of (48 + n)]
      else str_nat (n div 10) @ [char_of (48 + n mod 10)])"
  by pat_completeness auto
termination
  by (relation "measure id") auto

declare str_nat.simps [simp del]

definition str_int :: "int \<Rightarrow> string" where
  "str_int i = (if i < 0 then CHR ''-'' # str_nat (nat (- i)) else str_nat (nat i))"

text \<open>
  \<^verbatim>\<open>re.search(ARCHIVE_LINK_RE_STRING, line)\<close> with the pattern
  \<^verbatim>\<open>(?<=href=").*?(?=")\<close>: the leftmost position that follows \<^verbatim>\<open>href="\<close> and from which
  a double quote is reached without crossing a newline; the match is the shortest such
  text (it may be empty).
\<close>

fun lazy_until_quote :: "string \<Rightarrow> string option" where
  "lazy_until_quote [] = None"
| "lazy_until_quote (c # cs) =
     (if c = dquote then Some []
      else if c = newline then None
      else map_option ((#) c) (lazy_until_quote cs))"

fun re_search_href :: "string \<Rightarrow> string option" where
  "re_search_href [] = None"
| "re_search_href (c # cs) =
     (if startswith (c # cs) (''href='' @ [dquote]) then
        (case lazy_until_quote (drop 6 (c # cs)) of
           Some m \<Rightarrow> Some m
         | None \<Rightarrow> re_search_href cs)
      else re_search_href cs)"

text \<open>\<^verbatim>\<open>os.path.join(a, b)\<close> for two POSIX path components.\<close>

definition os_path_join :: "string \<Rightarrow> string \<Rightarrow> string" where
  "os_path_join a b =
     (if startswith b ''/'' then b
      else if a = [] \<or> endswith a ''/'' then a @ b
      else a @ ''/'' @ b)"

subsection \<open>Data\<close>

text \<open>Values of a command configuration, as \<^verbatim>\<open>json\<close> loads them.\<close>

datatype cvalue =
    VNone
  | VBool bool
  | VInt int
  | VStr string
  | VList "cvalue list"
  | VDict "(string \<times> cvalue) list"

text \<open>
  A Python \<^verbatim>\<open>dict\<close> with string keys is an association list that is read with
  \<^const>\<open>map_of\<close> and written with \<^const>\<open>AList.update\<close>; iteration follows the list.
\<close>

type_synonym config = "(string \<times> cvalue) list"

text \<open>
  One entry of the jobs configuration. A key of the dict may be missing; a key that is
  there has the type the configuration file gives it.
\<close>

record job_detail =
  KEY_JOBS_ENABLE :: "bool option"
  KEY_JOBS_AMOUNT :: "int option"
  KEY_JOBS_TOPIC :: "string option"
  KEY_JOBS_PLATFORM_BUILD :: "string option"
  KEY_JOBS_INTERVAL_MINUTES :: "int option"
  KEY_JOBS_CMD :: "string option"
  KEY_JOBS_CONFIGS :: "config option"

type_synonym jobs_config = "(string \<times> job_detail) list"

text \<open>
  The two attributes of \<^verbatim>\<open>BuildInformation\<close> that the engine reads. An entry of the
  back-fill table stands for the \<^verbatim>\<open>BuildInformation\<close> built from it.
\<close>

record build_information =
  archive_url :: string
  revision :: string

type_synonym backfill_table = "(string \<times> build_information) list"

datatype py_error = URLError | AttributeError

record response =
  getcode :: int
  body :: string

text \<open>What is found at the path of a signature folder.\<close>

datatype node = Absent | Regular_file | Folder "string \<rightharpoonup> string"

datatype folder_name = MD5_HASH_FOLDER | TIMESTAMP_FOLDER

text \<open>The \<^verbatim>\<open>content\<close> dict of the second status record.\<close>

record status_content =
  content_job_name :: string
  content_platform :: string
  content_topic :: string
  content_amount :: int
  content_cmd :: string
  content_cmd_config :: config
  content_task_uid_list :: "string list"

datatype level = DEBUG | INFO | WARN | ERROR

datatype log_arg =
    AStr string
  | AInt int
  | ABool bool
  | AErr py_error
  | AStrs "string list"
  | AConfig config
  | AJob job_detail

text \<open>The jobs the scheduler runs, and the keyword arguments kept with each timer.\<close>

datatype job_func =
    Job_listen_response_from_agent
  | Generate_archive_perfherder_relational_table
  | Job_pushing_meta_task

datatype trigger_interval = Seconds int | Minutes int

record push_kwargs =
  kw_username :: string
  kw_password :: string
  kw_command_config :: config
  kw_job_name :: string
  kw_topic :: "string option"
  kw_amount :: int
  kw_platform_build :: "string option"
  kw_cmd_name :: "string option"
  kw_overwrite_cmd_config :: config

datatype kwargs =
    Listen_kwargs string string string
  | Backfill_kwargs int string "string list"
  | Push_kwargs push_kwargs

record timer =
  timer_func :: job_func
  timer_interval :: trigger_interval
  timer_id :: string
  max_instances :: nat
  timer_kwargs :: kwargs

text \<open>What the engine does to its collaborators and to the log, in order.\<close>

datatype event =
    Log level string "log_arg list"
  | Create_job_id_folder string
  | Create_status_file string string int "status_content option"
  | Push_meta_task string string config string
  | Generate_table int string "string list"
  | Add_listener

record world =
  fs :: "folder_name \<Rightarrow> node"
  scheduler_jobs :: "timer list"
  events :: "event list"

text \<open>
  What the engine reads from outside: the archive server (\<open>urlopen_net\<close>, and
  \<open>urljoin\<close> of \<^verbatim>\<open>urlparse\<close>), \<^verbatim>\<open>hashlib.md5\<close> (\<open>md5_hexdigest\<close> of the bytes fed to the
  handler), the back-fill table helper, whether \<^verbatim>\<open>os.remove\<close> and \<^verbatim>\<open>os.makedirs\<close> are
  permitted, the broker's answer on a queue, the clock (already formatted), the status
  file creator (the id it hands out, its folder and its tag) and
  \<^verbatim>\<open>CommonUtil.mask_credential_value\<close>.
\<close>

record env =
  urlopen_net :: "string \<Rightarrow> py_error + response"
  urljoin :: "string \<Rightarrow> string \<Rightarrow> string"
  md5_hexdigest :: "string \<Rightarrow> string"
  get_history_archive_perfherder_relational_table :: "string \<Rightarrow> backfill_table option"
  os_remove_ok :: bool
  os_makedirs_ok :: bool
  check_pulse_queue_exists :: "string \<Rightarrow> string \<Rightarrow> string \<Rightarrow> bool"
  now_string :: string
  create_job_id_folder :: "string \<Rightarrow> string"
  get_status_folder :: string
  STATUS_TAG_PULSE_TRIGGER :: string
  mask_credential_value :: "config \<Rightarrow> config"

record tasks_trigger =
  jobs_config :: jobs_config
  pulse_username :: string
  pulse_password :: string
  suite_white_list_for_signature :: "string list"
  cmd_config_obj :: config

definition ARCHIVE_ROOT_URL :: string where
  "ARCHIVE_ROOT_URL = ''https://archive.mozilla.org''"

definition ARCHIVE_LATEST_FOLDER :: string where
  "ARCHIVE_LATEST_FOLDER = ''/pub/firefox/nightly/latest-mozilla-central/''"

definition BACK_FILL_DEFAULT_QUERY_DAYS :: int where
  "BACK_FILL_DEFAULT_QUERY_DAYS = 14"

subsection \<open>Logging and the signature folders\<close>

text \<open>
  A log line is its level, its template and the values formatted into it. A template
  that spans several lines is cut after its first line, the double quotes inside a
  template are left out, and an exception that is logged is named by the call that
  raised it.
\<close>

definition emit :: "event \<Rightarrow> world \<Rightarrow> world" where
  "emit ev w = w\<lparr>events := events w @ [ev]\<rparr>"

definition logging :: "level \<Rightarrow> string \<Rightarrow> log_arg list \<Rightarrow> world \<Rightarrow> world" where
  "logging lvl msg args w = emit (Log lvl msg args) w"

text \<open>The files in a folder: a path below something that is not a folder does not exist.\<close>

fun folder_files :: "node \<Rightarrow> (string \<rightharpoonup> string)" where
  "folder_files (Folder files) = files"
| "folder_files Absent = Map.empty"
| "folder_files Regular_file = Map.empty"

text \<open>
  \<^verbatim>\<open>with open(path, 'w') as f: f.write(text)\<close> for a file of a signature folder. It is
  called only after \<open>check_folder\<close> has returned \<^verbatim>\<open>True\<close>, when the folder is there.
\<close>

definition write_file :: "folder_name \<Rightarrow> string \<Rightarrow> string \<Rightarrow> world \<Rightarrow> world" where
  "write_file d name text w =
     w\<lparr>fs := (fs w)(d := Folder ((folder_files (fs w d))(name \<mapsto> text)))\<rparr>"

text \<open>
  \<^verbatim>\<open>check_folder\<close>: a folder is kept, a file in its place is removed and the folder made,
  a missing folder is made; an exception of \<^verbatim>\<open>os.remove\<close> or \<^verbatim>\<open>os.makedirs\<close> is logged
  and the answer is \<^verbatim>\<open>False\<close>.
\<close>

definition check_folder :: "env \<Rightarrow> folder_name \<Rightarrow> world \<Rightarrow> bool \<times> world" where
  "check_folder e d w =
     (case fs w d of
        Folder files \<Rightarrow> (True, w)
      | Regular_file \<Rightarrow>
          (if \<not> os_remove_ok e then
             (False, logging ERROR ''os.remove'' [] w)
           else if \<not> os_makedirs_ok e then
             (False, logging ERROR ''os.makedirs'' [] (w\<lparr>fs := (fs w)(d := Absent)\<rparr>))
           else (True, w\<lparr>fs := (fs w)(d := Folder Map.empty)\<rparr>))
      | Absent \<Rightarrow>
          (if \<not> os_makedirs_ok e then
             (False, logging ERROR ''os.makedirs'' [] w)
           else (True, w\<lparr>fs := (fs w)(d := Folder Map.empty)\<rparr>)))"

subsection \<open>Validation of a job and the enabled platforms\<close>

text \<open>
  \<^verbatim>\<open>_validate_job_config\<close>: the first required key that is missing is logged and the
  answer is \<^verbatim>\<open>False\<close>.
\<close>

definition validate_job_config :: "job_detail \<Rightarrow> world \<Rightarrow> bool \<times> world" where
  "validate_job_config job_config w =
     (if KEY_JOBS_TOPIC job_config = None then
        (False, logging ERROR ''There is no required key [{}] in job config.'' [AStr ''topic''] w)
      else if KEY_JOBS_PLATFORM_BUILD job_config = None then
        (False, logging ERROR ''There is no required key [{}] in job config.''
                  [AStr ''platform_build''] w)
      else if KEY_JOBS_CMD job_config = None then
        (False, logging ERROR ''There is no required key [{}] in job config.'' [AStr ''cmd''] w)
      else (True, w))"

text \<open>
  \<^verbatim>\<open>get_enabled_platform_list_from_trigger_jobs_config\<close>. The Python set is a list
  without repetition (\<^const>\<open>List.insert\<close> is \<^verbatim>\<open>set.add\<close>); \<^verbatim>\<open>enable and platform_build\<close>
  holds when \<^verbatim>\<open>enable\<close> is true and \<^verbatim>\<open>platform_build\<close> is a string that is not empty.
\<close>

fun enabled_platform_loop :: "jobs_config \<Rightarrow> string list \<Rightarrow> string list" where
  "enabled_platform_loop [] enabled_platform_set = enabled_platform_set"
| "enabled_platform_loop ((name, job) # rest) enabled_platform_set =
     (let en = (case KEY_JOBS_ENABLE job of None \<Rightarrow> False | Some b \<Rightarrow> b) in
      case KEY_JOBS_PLATFORM_BUILD job of
        None \<Rightarrow> enabled_platform_loop rest enabled_platform_set
      | Some pb \<Rightarrow>
          (if en \<and> pb \<noteq> [] then
             enabled_platform_loop rest (List.insert pb enabled_platform_set)
           else enabled_platform_loop rest enabled_platform_set))"

definition get_enabled_platform_list_from_trigger_jobs_config ::
  "jobs_config \<Rightarrow> world \<Rightarrow> string list \<times> world" where
  "get_enabled_platform_list_from_trigger_jobs_config config_dict_obj w =
     (let enabled_platform_set = enabled_platform_loop config_dict_obj (List.insert ''win64'' [])
      in (enabled_platform_set,
          logging INFO ''Enabled platforms: {}'' [AStrs enabled_platform_set] w))"

subsection \<open>The hash of the latest build file\<close>

text \<open>\<^verbatim>\<open>urllib2.urlopen(url)\<close>: a URL that is \<^verbatim>\<open>None\<close> raises \<^verbatim>\<open>AttributeError\<close>.\<close>

definition urlopen :: "env \<Rightarrow> string option \<Rightarrow> py_error + response" where
  "urlopen e url = (case url of None \<Rightarrow> Inl AttributeError | Some u \<Rightarrow> urlopen_net e u)"

text \<open>The loop of \<^verbatim>\<open>get_all_latest_files_for_md5\<close> over the lines of the listing.\<close>

fun collect_links :: "string list \<Rightarrow> (string \<times> string) list \<Rightarrow> (string \<times> string) list" where
  "collect_links [] ret_dict = ret_dict"
| "collect_links (line # rest) ret_dict =
     (case re_search_href line of
        None \<Rightarrow> collect_links rest ret_dict
      | Some href_link \<Rightarrow>
          collect_links rest
            (AList.update (last (split_chr CHR ''/'' href_link)) href_link ret_dict))"

definition get_all_latest_files_for_md5 ::
  "env \<Rightarrow> world \<Rightarrow> (string \<times> string) list \<times> world" where
  "get_all_latest_files_for_md5 e w =
     (let latest_url = urljoin e ARCHIVE_ROOT_URL ARCHIVE_LATEST_FOLDER in
      case urlopen e (Some latest_url) of
        Inl err \<Rightarrow> ([], logging ERROR ''{}'' [AErr err] w)
      | Inr res_obj \<Rightarrow>
          (if getcode res_obj = 200 then
             (collect_links (readlines (body res_obj)) [], w)
           else
             ([], logging ERROR ''Fetch builds failed. Code: {code}, Link: {link}''
                    [AInt (getcode res_obj), AStr latest_url] w)))"

text \<open>
  \<^verbatim>\<open>get_latest_info_json_url_for_md5\<close>: the URL of the greatest file name that ends with
  \<^verbatim>\<open>.<platform>.json\<close>, or \<^verbatim>\<open>None\<close> (logged) when no file name does.
\<close>

definition get_latest_info_json_url_for_md5 ::
  "env \<Rightarrow> string \<Rightarrow> world \<Rightarrow> string option \<times> world" where
  "get_latest_info_json_url_for_md5 e platform w =
     (let match_endswith_string = ''.'' @ platform @ ''.'' @ ''json'';
          (all_files, w1) = get_all_latest_files_for_md5 e w;
          matched_files = filter (\<lambda>(k, v). endswith k match_endswith_string) all_files
      in if length matched_files \<ge> 1 then
           (let matched_filename = last (sort (map fst matched_files)) in
            case map_of matched_files matched_filename of
              Some ret_url \<Rightarrow> (Some (urljoin e ARCHIVE_ROOT_URL ret_url), w1)
            | None \<Rightarrow> (Some ARCHIVE_ROOT_URL, w1))
         else
           (None, logging ERROR ''There is no matched filename endswith {}.''
                    [AStr match_endswith_string] w1))"

text \<open>
  The loop of \<^verbatim>\<open>get_remote_md5\<close>: blocks of 1024 bytes are fed to the handler until a
  read returns nothing or the counter, raised before the test, reaches \<^verbatim>\<open>max_size\<close>.
  The result is what has been fed to the handler.
\<close>

function read_loop :: "string \<Rightarrow> nat \<Rightarrow> nat \<Rightarrow> string \<Rightarrow> string" where
  "read_loop remote_resource counter max_size fed =
     (let data = take 1024 remote_resource;
          counter' = counter + 1024
      in if data = [] \<or> counter' \<ge> max_size then fed
         else read_loop (drop 1024 remote_resource) counter' max_size (fed @ data))"
  by pat_completeness auto
termination
  by (relation "measure (\<lambda>(r, c, m, f). m - c)") auto

declare read_loop.simps [simp del]

definition get_remote_md5 :: "env \<Rightarrow> string option \<Rightarrow> nat \<Rightarrow> py_error + string" where
  "get_remote_md5 e url max_size =
     (case urlopen e url of
        Inl err \<Rightarrow> Inl err
      | Inr remote_resource \<Rightarrow>
          Inr (md5_hexdigest e (read_loop (body remote_resource) 0 max_size [])))"

definition get_latest_info_json_md5_hash ::
  "env \<Rightarrow> string \<Rightarrow> world \<Rightarrow> (py_error + string) \<times> world" where
  "get_latest_info_json_md5_hash e platform w =
     (let (json_file_url, w1) = get_latest_info_json_url_for_md5 e platform w
      in (get_remote_md5 e json_file_url (1 * 1024 * 1024), w1))"

subsection \<open>The two signature checks\<close>

text \<open>
  \<^verbatim>\<open>check_latest_info_json_md5_changed\<close>. The folder is prepared first, then the hash
  is fetched (an exception of the fetch leaves the method), then the file of the job is
  compared and written.
\<close>

definition check_latest_info_json_md5_changed ::
  "env \<Rightarrow> string \<Rightarrow> string \<Rightarrow> world \<Rightarrow> (py_error + bool) \<times> world" where
  "check_latest_info_json_md5_changed e job_name platform w =
     (let (ok, w1) = check_folder e MD5_HASH_FOLDER w in
      if \<not> ok then (Inr False, w1)
      else
        (let (fetched, w2) = get_latest_info_json_md5_hash e platform w1 in
         case fetched of
           Inl err \<Rightarrow> (Inl err, w2)
         | Inr new_hash \<Rightarrow>
             (case folder_files (fs w2 MD5_HASH_FOLDER) job_name of
                Some text \<Rightarrow>
                  (let origin_hash = readline text in
                   if origin_hash = new_hash then (Inr False, w2)
                   else
                     (Inr True,
                      write_file MD5_HASH_FOLDER job_name new_hash
                        (logging INFO ''Job {} platform {}: Latest Hash [{}], Origin Hash: [{}]''
                           [AStr job_name, AStr platform, AStr new_hash, AStr origin_hash] w2)))
              | None \<Rightarrow>
                  (Inr True,
                   write_file MD5_HASH_FOLDER job_name new_hash
                     (logging INFO ''Job {} platform {}: Latest Hash [{}], no origin hash.''
                        [AStr job_name, AStr platform, AStr new_hash] w2)))))"

text \<open>
  \<^verbatim>\<open>check_latest_timestamp\<close>. The table is read first; a table that is \<^verbatim>\<open>None\<close> or empty
  is logged and answered with \<^verbatim>\<open>(False, None)\<close>. The latest timestamp is the greatest
  key.
\<close>

definition check_latest_timestamp ::
  "env \<Rightarrow> string \<Rightarrow> string \<Rightarrow> world \<Rightarrow> (bool \<times> build_information option) \<times> world" where
  "check_latest_timestamp e job_name platform w =
     (case get_history_archive_perfherder_relational_table e platform of
        None \<Rightarrow>
          ((False, None),
           logging ERROR ''Cannot retrieve the archive relational table of platform: {platform}''
             [AStr platform] w)
      | Some backfill_table_obj \<Rightarrow>
          (if backfill_table_obj = [] then
             ((False, None),
              logging ERROR ''Cannot retrieve the archive relational table of platform: {platform}''
                [AStr platform] w)
           else
             (let latest_timestamp = last (sort (map fst backfill_table_obj));
                  (ok, w1) = check_folder e TIMESTAMP_FOLDER w
              in if \<not> ok then ((False, None), w1)
                 else
                   (case folder_files (fs w1 TIMESTAMP_FOLDER) job_name of
                      Some text \<Rightarrow>
                        (let original_timestamp = readline text in
                         if original_timestamp = latest_timestamp then ((False, None), w1)
                         else
                           ((True, map_of backfill_table_obj latest_timestamp),
                            write_file TIMESTAMP_FOLDER job_name latest_timestamp
                              (logging INFO
                                 ''Job {} platform {}: Latest timestamp [{}], Origin timestamp: [{}]''
                                 [AStr job_name, AStr platform, AStr latest_timestamp,
                                  AStr original_timestamp] w1)))
                    | None \<Rightarrow>
                        ((True, map_of backfill_table_obj latest_timestamp),
                         write_file TIMESTAMP_FOLDER job_name latest_timestamp
                           (logging INFO
                              ''Job {} platform {}: Latest timestamp [{}], no origin timestamp.''
                              [AStr job_name, AStr platform, AStr latest_timestamp] w1))))))"

subsection \<open>Preparing the configuration of a command\<close>

text \<open>
  \<^verbatim>\<open>filter_cmd_config\<close>. The loop runs over the items of the copy taken at its start;
  the value of the case list is replaced in the current dict, and the current dict is
  masked after every item. \<^verbatim>\<open>.split\<close> on a value that is neither a list nor a string
  raises \<^verbatim>\<open>AttributeError\<close>.
\<close>

fun filter_loop :: "(config \<Rightarrow> config) \<Rightarrow> (string \<times> cvalue) list \<Rightarrow> config \<Rightarrow> py_error + config" where
  "filter_loop masking [] ret_config = Inr ret_config"
| "filter_loop masking ((config_key, config_value) # rest) ret_config =
     (if config_key = ''OVERWRITE_HASAL_SUITE_CASE_LIST'' then
        (case config_value of
           VList vs \<Rightarrow>
             filter_loop masking rest (masking (AList.update config_key (VList vs) ret_config))
         | VStr s \<Rightarrow>
             filter_loop masking rest
               (masking (AList.update config_key (VList (map VStr (split_chr CHR '','' s))) ret_config))
         | VNone \<Rightarrow> Inl AttributeError
         | VBool b \<Rightarrow> Inl AttributeError
         | VInt i \<Rightarrow> Inl AttributeError
         | VDict d \<Rightarrow> Inl AttributeError)
      else filter_loop masking rest (masking ret_config))"

definition filter_cmd_config :: "(config \<Rightarrow> config) \<Rightarrow> config \<Rightarrow> py_error + config" where
  "filter_cmd_config masking input_config = filter_loop masking input_config input_config"

text \<open>
  \<^verbatim>\<open>handle_specify_commands\<close>: the two commands that name a build get its archive URL
  and its revision; reading an attribute of \<^verbatim>\<open>None\<close> raises \<^verbatim>\<open>AttributeError\<close>.
\<close>

definition handle_specify_commands ::
  "string \<Rightarrow> config \<Rightarrow> build_information option \<Rightarrow> py_error + config" where
  "handle_specify_commands cmd_name cmd_configs build_info =
     (if cmd_name \<in> set [''run-hasal-on-specify-nightly'', ''download-specify-nightly''] then
        (case build_info of
           None \<Rightarrow> Inl AttributeError
         | Some bi \<Rightarrow>
             Inr (AList.update ''DOWNLOAD_REVISION'' (VStr (revision bi))
                    (AList.update ''DOWNLOAD_PKG_DIR_URL'' (VStr (archive_url bi)) cmd_configs)))
      else Inr cmd_configs)"

subsection \<open>The two dispatch jobs\<close>

text \<open>
  One round of the loop \<^verbatim>\<open>for idx in range(amount)\<close>: the uid is appended to the list
  and the message is pushed.
\<close>

definition push_step ::
  "string \<Rightarrow> string \<Rightarrow> config \<Rightarrow> string \<Rightarrow> nat \<Rightarrow> string list \<times> world \<Rightarrow> string list \<times> world" where
  "push_step topic cmd_name overwrite_cmd_config uid_prefix idx st =
     (let uid = uid_prefix @ ''.'' @ str_int (int idx + 1)
      in (fst st @ [uid],
          emit (Push_meta_task topic cmd_name overwrite_cmd_config uid) (snd st)))"

definition push_loop ::
  "string \<Rightarrow> string \<Rightarrow> config \<Rightarrow> string \<Rightarrow> int \<Rightarrow> world \<Rightarrow> string list \<times> world" where
  "push_loop topic cmd_name overwrite_cmd_config uid_prefix amount w =
     fold (push_step topic cmd_name overwrite_cmd_config uid_prefix) [0..<nat amount] ([], w)"

definition log_pushing ::
  "string \<Rightarrow> string \<Rightarrow> string \<Rightarrow> string \<Rightarrow> int \<Rightarrow> string \<Rightarrow> config \<Rightarrow> world \<Rightarrow> world" where
  "log_pushing uid_prefix job_name platform_build topic amount cmd_name cmd_config w =
     logging INFO ''Pushing to Pulse...''
       [AStr uid_prefix, AStr job_name, AStr platform_build, AStr topic, AInt amount,
        AStr cmd_name, AConfig cmd_config] w"

definition log_no_queue :: "env \<Rightarrow> string \<Rightarrow> string \<Rightarrow> string \<Rightarrow> world \<Rightarrow> world" where
  "log_no_queue e username password topic w =
     (if \<not> check_pulse_queue_exists e username password topic then
        logging ERROR ''There is not Queue for Topic [{topic}]. Message might be ignored.''
          [AStr topic] w
      else w)"

text \<open>\<^verbatim>\<open>job_pushing_meta_task_md5\<close>, the job on the hash of the build file.\<close>

definition job_pushing_meta_task_md5 ::
  "env \<Rightarrow> string \<Rightarrow> string \<Rightarrow> config \<Rightarrow> string \<Rightarrow> string \<Rightarrow> int \<Rightarrow> string \<Rightarrow> string \<Rightarrow> config
     \<Rightarrow> world \<Rightarrow> (py_error + unit) \<times> world" where
  "job_pushing_meta_task_md5 e username password command_config job_name topic amount
       platform_build cmd_name overwrite_cmd_config w =
     (let (changed, w1) = check_latest_info_json_md5_changed e job_name platform_build w in
      case changed of
        Inl err \<Rightarrow> (Inl err, w1)
      | Inr False \<Rightarrow> (Inr (), w1)
      | Inr True \<Rightarrow>
          (let w2 = log_no_queue e username password topic w1;
               uid_prefix = now_string e @ ''.'' @ job_name;
               w3 = log_pushing uid_prefix job_name platform_build topic amount cmd_name
                      overwrite_cmd_config w2;
               (uid_list, w4) = push_loop topic cmd_name overwrite_cmd_config uid_prefix amount w3
           in (Inr (), w4)))"

text \<open>
  \<^verbatim>\<open>job_pushing_meta_task\<close>, the job on the latest timestamp of the back-fill table,
  which is the job that \<^verbatim>\<open>run\<close> registers.
\<close>

definition job_pushing_meta_task ::
  "env \<Rightarrow> string \<Rightarrow> string \<Rightarrow> config \<Rightarrow> string \<Rightarrow> string \<Rightarrow> int \<Rightarrow> string \<Rightarrow> string \<Rightarrow> config
     \<Rightarrow> world \<Rightarrow> (py_error + unit) \<times> world" where
  "job_pushing_meta_task e username password command_config job_name topic amount
       platform_build cmd_name overwrite_cmd_config w =
     (let w0 = logging INFO ''checking Job [{}], Platform [{}]...''
                 [AStr job_name, AStr platform_build] w;
          ((changed, build_info), w1) = check_latest_timestamp e job_name platform_build w0;
          w2 = logging INFO ''checking Job [{}], Platform [{}]... {}''
                 [AStr job_name, AStr platform_build, ABool changed] w1
      in if changed then
           (let job_id = create_job_id_folder e job_name;
                w3 = emit (Create_job_id_folder job_name) w2;
                job_id_fp = os_path_join (get_status_folder e) job_id;
                w4 = emit (Create_status_file job_id_fp (STATUS_TAG_PULSE_TRIGGER e) 100 None) w3;
                w5 = log_no_queue e username password topic w4
            in case handle_specify_commands cmd_name overwrite_cmd_config build_info of
                 Inl err \<Rightarrow> (Inl err, w5)
               | Inr cmd_config \<Rightarrow>
                   (let uid_prefix = now_string e @ ''.'' @ job_name;
                        w6 = log_pushing uid_prefix job_name platform_build topic amount cmd_name
                               cmd_config w5;
                        (uid_list, w7) = push_loop topic cmd_name cmd_config uid_prefix amount w6
                    in case filter_cmd_config (mask_credential_value e) cmd_config of
                         Inl err \<Rightarrow> (Inl err, w7)
                       | Inr masked \<Rightarrow>
                           (Inr (),
                            emit (Create_status_file job_id_fp (STATUS_TAG_PULSE_TRIGGER e) 900
                                    (Some \<lparr>content_job_name = job_name,
                                           content_platform = platform_build,
                                           content_topic = topic,
                                           content_amount = amount,
                                           content_cmd = cmd_name,
                                           content_cmd_config = masked,
                                           content_task_uid_list = uid_list\<rparr>)) w7)))
         else (Inr (), w2))"

subsection \<open>Registering the timers\<close>

definition add_job :: "timer \<Rightarrow> world \<Rightarrow> world" where
  "add_job t w = w\<lparr>scheduler_jobs := scheduler_jobs w @ [t]\<rparr>"

fun generate_tables :: "tasks_trigger \<Rightarrow> string list \<Rightarrow> world \<Rightarrow> world" where
  "generate_tables self [] w = w"
| "generate_tables self (platform_build # rest) w =
     generate_tables self rest
       (emit (Generate_table BACK_FILL_DEFAULT_QUERY_DAYS platform_build
                (suite_white_list_for_signature self))
          (logging INFO ''Generating latest [{}] backfill table ...'' [AStr platform_build] w))"

fun add_backfill_jobs :: "tasks_trigger \<Rightarrow> string list \<Rightarrow> world \<Rightarrow> world" where
  "add_backfill_jobs self [] w = w"
| "add_backfill_jobs self (platform_build # rest) w =
     add_backfill_jobs self rest
       (add_job \<lparr>timer_func = Generate_archive_perfherder_relational_table,
                 timer_interval = Minutes 10,
                 timer_id = ''query_backfill_table_'' @ platform_build,
                 max_instances = 1,
                 timer_kwargs = Backfill_kwargs BACK_FILL_DEFAULT_QUERY_DAYS platform_build
                                  (suite_white_list_for_signature self)\<rparr> w)"

text \<open>
  The loop of \<^verbatim>\<open>run\<close> over the jobs configuration. A job that fails the validation is
  logged, and the loop goes on with the same job: it is registered when it is enabled.
  A key that is missing is \<^verbatim>\<open>None\<close> among the keyword arguments of the timer.
\<close>

fun add_trigger_jobs :: "tasks_trigger \<Rightarrow> jobs_config \<Rightarrow> world \<Rightarrow> world" where
  "add_trigger_jobs self [] w = w"
| "add_trigger_jobs self ((job_name, job) # rest) w =
     (let (valid, w1) = validate_job_config job w;
          w2 = (if \<not> valid then
                  logging ERROR ''There is not valid job.'' [AStr job_name, AJob job] w1
                else w1);
          en = (case KEY_JOBS_ENABLE job of None \<Rightarrow> False | Some b \<Rightarrow> b);
          minutes = (case KEY_JOBS_INTERVAL_MINUTES job of None \<Rightarrow> 10 | Some m \<Rightarrow> m);
          cfgs = (case KEY_JOBS_CONFIGS job of None \<Rightarrow> [] | Some c \<Rightarrow> c);
          amount = (case KEY_JOBS_AMOUNT job of None \<Rightarrow> 1 | Some a \<Rightarrow> a)
      in if en then
           add_trigger_jobs self rest
             (add_job \<lparr>timer_func = Job_pushing_meta_task,
                       timer_interval = Minutes minutes,
                       timer_id = job_name,
                       max_instances = 1,
                       timer_kwargs = Push_kwargs
                         \<lparr>kw_username = pulse_username self,
                          kw_password = pulse_password self,
                          kw_command_config = cmd_config_obj self,
                          kw_job_name = job_name,
                          kw_topic = KEY_JOBS_TOPIC job,
                          kw_amount = amount,
                          kw_platform_build = KEY_JOBS_PLATFORM_BUILD job,
                          kw_cmd_name = KEY_JOBS_CMD job,
                          kw_overwrite_cmd_config = cfgs\<rparr>\<rparr>
                (logging INFO ''Job [{}] is enabled.'' [AStr job_name] w2))
         else
           add_trigger_jobs self rest
             (logging INFO ''Job [{}] is disabled.'' [AStr job_name] w2))"

text \<open>
  \<^verbatim>\<open>run\<close>: the listener for exceptions, the timer of the \<^verbatim>\<open>mgt\<close> listener, the tables
  and the timers of the enabled platforms, then the timers of the jobs. (The log line
  on the rotating log names its path as given, not the absolute path.)
\<close>

definition run :: "tasks_trigger \<Rightarrow> bool \<Rightarrow> world \<Rightarrow> world" where
  "run self skip_first_query w =
     (let w1 = emit Add_listener w;
          w2 = logging INFO ''Adding Rotating Logger for listen Agent information ...'' [] w1;
          w3 = add_job \<lparr>timer_func = Job_listen_response_from_agent,
                        timer_interval = Seconds 10,
                        timer_id = ''trigger_mgt_listener'',
                        max_instances = 1,
                        timer_kwargs = Listen_kwargs (pulse_username self) (pulse_password self)
                                         ''rotating_mgt.log''\<rparr> w2;
          w4 = logging INFO ''Adding Rotating Logger done: {fp}'' [AStr ''rotating_mgt.log''] w3;
          (enabled_platform_list, w5) =
             get_enabled_platform_list_from_trigger_jobs_config (jobs_config self) w4;
          w6 = (if \<not> skip_first_query then
                  logging INFO ''Generating latest backfill tables done.'' []
                    (generate_tables self enabled_platform_list w5)
                else w5);
          w7 = add_backfill_jobs self enabled_platform_list w6
      in add_trigger_jobs self (jobs_config self) w7)"

subsection \<open>What is observed of a run\<close>

text \<open>
  The events of a world by kind: log lines, messages pushed to Pulse, status files.
  \<open>actions\<close> are the calls to collaborators in the order in which they were made, the
  log lines left out.
\<close>

fun is_log :: "event \<Rightarrow> bool" where
  "is_log (Log l m a) = True"
| "is_log (Create_job_id_folder j) = False"
| "is_log (Create_status_file fp tag n c) = False"
| "is_log (Push_meta_task t c cfg uid) = False"
| "is_log (Generate_table d p wl) = False"
| "is_log Add_listener = False"

fun is_push :: "event \<Rightarrow> bool" where
  "is_push (Push_meta_task t c cfg uid) = True"
| "is_push (Log l m a) = False"
| "is_push (Create_job_id_folder j) = False"
| "is_push (Create_status_file fp tag n c) = False"
| "is_push (Generate_table d p wl) = False"
| "is_push Add_listener = False"

fun is_status :: "event \<Rightarrow> bool" where
  "is_status (Create_status_file fp tag n c) = True"
| "is_status (Log l m a) = False"
| "is_status (Create_job_id_folder j) = False"
| "is_status (Push_meta_task t c cfg uid) = False"
| "is_status (Generate_table d p wl) = False"
| "is_status Add_listener = False"

fun pushed_uid :: "event \<Rightarrow> string option" where
  "pushed_uid (Push_meta_task t c cfg uid) = Some uid"
| "pushed_uid (Log l m a) = None"
| "pushed_uid (Create_job_id_folder j) = None"
| "pushed_uid (Create_status_file fp tag n c) = None"
| "pushed_uid (Generate_table d p wl) = None"
| "pushed_uid Add_listener = None"

definition actions :: "world \<Rightarrow> event list" where
  "actions w = filter (\<lambda>ev. \<not> is_log ev) (events w)"

definition pushed :: "world \<Rightarrow> event list" where
  "pushed w = filter is_push (events w)"

definition pushed_uids :: "world \<Rightarrow> string list" where
  "pushed_uids w = List.map_filter pushed_uid (events w)"

definition status_records :: "world \<Rightarrow> event list" where
  "status_records w = filter is_status (events w)"

subsection \<open>Concrete inputs\<close>

text \<open>A world with nothing on disk, no timer and no event.\<close>

definition fresh_world :: world where
  "fresh_world = \<lparr>fs = (\<lambda>d. Absent), scheduler_jobs = [], events = []\<rparr>"

text \<open>An enabled job whose \<^verbatim>\<open>platform_build\<close> is the empty string.\<close>

definition job_without_platform :: job_detail where
  "job_without_platform =
     \<lparr>KEY_JOBS_ENABLE = Some True, KEY_JOBS_AMOUNT = None, KEY_JOBS_TOPIC = Some ''win7'',
      KEY_JOBS_PLATFORM_BUILD = Some [], KEY_JOBS_INTERVAL_MINUTES = None,
      KEY_JOBS_CMD = Some ''download-latest-nightly'', KEY_JOBS_CONFIGS = None\<rparr>"

text \<open>An enabled job that has none of the required keys.\<close>

definition job_without_required_keys :: job_detail where
  "job_without_required_keys =
     \<lparr>KEY_JOBS_ENABLE = Some True, KEY_JOBS_AMOUNT = None, KEY_JOBS_TOPIC = None,
      KEY_JOBS_PLATFORM_BUILD = None, KEY_JOBS_INTERVAL_MINUTES = None,
      KEY_JOBS_CMD = None, KEY_JOBS_CONFIGS = None\<rparr>"

text \<open>
  Modelled from the spec: \<^verbatim>\<open>CommonUtil.mask_credential_value\<close> is not among the sources;
  the spec has it replace the values under known-sensitive keys with a fixed redaction
  marker. It is used for the concrete environment below only: the properties take the
  masking function as it comes with the environment.
\<close>

definition mask_values :: "string list \<Rightarrow> string \<Rightarrow> config \<Rightarrow> config" where
  "mask_values sensitive marker cfg =
     map (\<lambda>(k, v). if k \<in> set sensitive then (k, VStr marker) else (k, v)) cfg"

text \<open>
  An archive whose listing has one build file for \<^verbatim>\<open>win64\<close>, with the given text as the
  body of that file, and a back-fill table of two builds for \<^verbatim>\<open>win64\<close>. The digest
  of the empty input is the one MD5 gives; every other input gets one fixed digest.
\<close>

definition listing_body :: string where
  "listing_body =
     ''<a href='' @ [dquote] @
     ''/pub/firefox/nightly/latest-mozilla-central/firefox-56.0a1.en-US.win64.json'' @
     [dquote] @ ''>firefox-56.0a1.en-US.win64.json</a>'' @ [newline]"

definition example_table :: backfill_table where
  "example_table =
     [(''2020-02-01T02:00:00'',
       \<lparr>archive_url = ''https://archive.mozilla.org/pub/firefox/nightly/2020/02/01/'',
        revision = ''def456''\<rparr>),
      (''2020-02-02T02:00:00'',
       \<lparr>archive_url = ''https://archive.mozilla.org/pub/firefox/nightly/2020/02/02/'',
        revision = ''abc123''\<rparr>)]"

definition example_env :: "string \<Rightarrow> env" where
  "example_env file_body =
     \<lparr>urlopen_net = (\<lambda>u. if u = ARCHIVE_ROOT_URL @ ARCHIVE_LATEST_FOLDER
                           then Inr \<lparr>getcode = 200, body = listing_body\<rparr>
                           else Inr \<lparr>getcode = 200, body = file_body\<rparr>),
      urljoin = (\<lambda>base url. base @ url),
      md5_hexdigest = (\<lambda>fed. if fed = [] then ''d41d8cd98f00b204e9800998ecf8427e''
                               else ''9e107d9d372bb6826bd81d3542a419d6''),
      get_history_archive_perfherder_relational_table =
        (\<lambda>platform. if platform = ''win64'' then Some example_table else None),
      os_remove_ok = True,
      os_makedirs_ok = True,
      check_pulse_queue_exists = (\<lambda>username password topic. True),
      now_string = ''2020-02-02_03:00:00.000001'',
      create_job_id_folder = (\<lambda>job_name. job_name @ ''-1''),
      get_status_folder = ''/status'',
      STATUS_TAG_PULSE_TRIGGER = ''pulse_trigger'',
      mask_credential_value = mask_values [''pulse_password''] ''***''\<rparr>"

text \<open>A world whose signature folders hold the given records.\<close>

definition stored_world :: "(string \<rightharpoonup> string) \<Rightarrow> (string \<rightharpoonup> string) \<Rightarrow> world" where
  "stored_world md5_records timestamp_records =
     \<lparr>fs = (\<lambda>d. case d of MD5_HASH_FOLDER \<Rightarrow> Folder md5_records
                         | TIMESTAMP_FOLDER \<Rightarrow> Folder timestamp_records),
      scheduler_jobs = [], events = []\<rparr>"

section \<open>Properties\<close>

subsection \<open>Effects of logging\<close>

lemma fs_emit: "fs (emit ev w) = fs w"
  by (simp add: emit_def)

lemma events_emit: "events (emit ev w) = events w @ [ev]"
  by (simp add: emit_def)

lemma scheduler_jobs_emit: "scheduler_jobs (emit ev w) = scheduler_jobs w"
  by (simp add: emit_def)

lemma fs_logging: "fs (logging l m a w) = fs w"
  by (simp add: logging_def fs_emit)

lemma events_logging: "events (logging l m a w) = events w @ [Log l m a]"
  by (simp add: logging_def events_emit)

lemma scheduler_jobs_logging: "scheduler_jobs (logging l m a w) = scheduler_jobs w"
  by (simp add: logging_def scheduler_jobs_emit)

subsection \<open>Decimal numerals and the loop of pushes\<close>

lemma str_nat_nonempty: "str_nat n \<noteq> []"
  by (subst str_nat.simps) simp

lemma length_str_nat_small: "n < 10 \<Longrightarrow> length (str_nat n) = 1"
  by (subst str_nat.simps) simp

lemma length_str_nat_big: "\<not> n < 10 \<Longrightarrow> length (str_nat n) \<ge> 2"
proof -
  assume a: "\<not> n < 10"
  have "length (str_nat (n div 10)) \<ge> 1"
    using str_nat_nonempty [of "n div 10"] by (cases "str_nat (n div 10)") auto
  then show ?thesis using a by (subst str_nat.simps) simp
qed

lemma digit_char_inj: "a < 10 \<Longrightarrow> b < 10 \<Longrightarrow> char_of (48 + a) = (char_of (48 + b) :: char) \<Longrightarrow> a = (b::nat)"
proof -
  assume a: "a < 10" and b: "b < 10" and eq: "char_of (48 + a) = (char_of (48 + b) :: char)"
  have "of_char (char_of (48 + a) :: char) = (of_char (char_of (48 + b) :: char) :: nat)"
    using eq by simp
  then have "(48 + a) mod 256 = (48 + b) mod 256" by (simp only: of_char_of)
  then show ?thesis using a b by simp
qed

lemma str_nat_inj: "str_nat n = str_nat m \<Longrightarrow> n = m"
proof (induction n arbitrary: m rule: str_nat.induct)
  case (1 n)
  show ?case
  proof (cases "n < 10")
    case True
    then have "length (str_nat m) = 1" using "1.prems" length_str_nat_small [of n] by simp
    then have m: "m < 10" using length_str_nat_big [of m] by fastforce
    have "[char_of (48 + n)] = [char_of (48 + m) :: char]"
      using "1.prems" True m by (simp add: str_nat.simps [of n] str_nat.simps [of m])
    then show ?thesis using digit_char_inj True m by simp
  next
    case False
    then have "length (str_nat m) \<ge> 2" using "1.prems" length_str_nat_big [of n] by simp
    then have m: "\<not> m < 10" using length_str_nat_small [of m] by fastforce
    have eq: "str_nat (n div 10) @ [char_of (48 + n mod 10)] = str_nat (m div 10) @ [char_of (48 + m mod 10)]"
      using "1.prems" False m by (simp add: str_nat.simps [of n] str_nat.simps [of m])
    then have "str_nat (n div 10) = str_nat (m div 10)" and d: "char_of (48 + n mod 10) = (char_of (48 + m mod 10) :: char)"
      by simp_all
    then have "n div 10 = m div 10" using "1.IH" False by simp
    moreover have "n mod 10 = m mod 10" using digit_char_inj [OF _ _ d] by simp
    ultimately show ?thesis by (metis div_mult_mod_eq)
  qed
qed

lemma str_int_inj_pos: "0 \<le> i \<Longrightarrow> 0 \<le> j \<Longrightarrow> str_int i = str_int j \<Longrightarrow> i = j"
  using str_nat_inj [of "nat i" "nat j"] by (simp add: str_int_def)

lemma map_int_upt: "map (\<lambda>i. int i + 1) [0..<n] = [1..int n]"
proof (induction n)
  case 0
  then show ?case by simp
next
  case (Suc n)
  have "[1..int (Suc n)] = [1..int n] @ [int n + 1]"
    using upto_rec2 [of 1 "int n + 1"] by (simp add: add.commute)
  then show ?case using Suc by simp
qed

lemma push_fold:
  "fold (push_step t c cfg p) [0..<n] (us, w) =
     (us @ map (\<lambda>i. p @ ''.'' @ str_int (int i + 1)) [0..<n],
      w\<lparr>events := events w @ map (\<lambda>i. Push_meta_task t c cfg (p @ ''.'' @ str_int (int i + 1))) [0..<n]\<rparr>)"
  by (induction n) (simp_all add: push_step_def emit_def Let_def)

lemma push_loop_eq:
  "push_loop t c cfg p k w =
     (map (\<lambda>i. p @ ''.'' @ str_int i) [1..k],
      w\<lparr>events := events w @ map (\<lambda>i. Push_meta_task t c cfg (p @ ''.'' @ str_int i)) [1..k]\<rparr>)"
proof -
  have m: "\<And>f. map (\<lambda>i. f (int i + 1)) [0..<nat k] = map f [1..k]"
  proof -
    fix f :: "int \<Rightarrow> 'b"
    have "map (\<lambda>i. f (int i + 1)) [0..<nat k] = map f (map (\<lambda>i. int i + 1) [0..<nat k])"
      by (simp add: comp_def)
    also have "\<dots> = map f [1..int (nat k)]" by (simp only: map_int_upt)
    also have "\<dots> = map f [1..k]" by (cases "0 \<le> k") simp_all
    finally show "map (\<lambda>i. f (int i + 1)) [0..<nat k] = map f [1..k]" .
  qed
  have a: "map (\<lambda>i. p @ ''.'' @ str_int (int i + 1)) [0..<nat k] = map (\<lambda>i. p @ ''.'' @ str_int i) [1..k]"
    using m [of "\<lambda>i. p @ ''.'' @ str_int i"] .
  have b: "map (\<lambda>i. Push_meta_task t c cfg (p @ ''.'' @ str_int (int i + 1))) [0..<nat k] =
           map (\<lambda>i. Push_meta_task t c cfg (p @ ''.'' @ str_int i)) [1..k]"
    using m [of "\<lambda>i. Push_meta_task t c cfg (p @ ''.'' @ str_int i)"] .
  show ?thesis
    unfolding push_loop_def push_fold a b by simp
qed

lemma uids_distinct: "distinct (map (\<lambda>i. p @ ''.'' @ str_int i) [1..k])"
proof -
  have "inj_on (\<lambda>i. p @ ''.'' @ str_int i) (set [1..k])"
  proof (rule inj_onI)
    fix x y assume "x \<in> set [1..k]" "y \<in> set [1..k]" "p @ ''.'' @ str_int x = p @ ''.'' @ str_int y"
    then have "0 \<le> x" "0 \<le> y" "str_int x = str_int y" by simp_all
    then show "x = y" by (rule str_int_inj_pos)
  qed
  then show ?thesis by (simp add: distinct_map)
qed

subsection \<open>The timestamp check reads the folder and appends log lines\<close>

lemma latest_key_in_table: "t \<noteq> [] \<Longrightarrow> \<exists>bi. map_of t (last (sort (map fst t))) = Some bi"
proof -
  assume "t \<noteq> []"
  then have "sort (map fst t) \<noteq> []" by (metis length_0_conv length_map length_sort)
  then have "last (sort (map fst t)) \<in> set (sort (map fst t))" by (rule last_in_set)
  then have "last (sort (map fst t)) \<in> fst ` set t" by simp
  then have "map_of t (last (sort (map fst t))) \<noteq> None" by (simp add: map_of_eq_None_iff)
  then show ?thesis by blast
qed


lemmas world_unfold = check_folder_def logging_def emit_def write_file_def Let_def

lemma check_latest_timestamp_events:
  "check_latest_timestamp e j p (w\<lparr>events := evs\<rparr>) =
     (fst (check_latest_timestamp e j p w),
      (snd (check_latest_timestamp e j p w))
        \<lparr>events := evs @ drop (length (events w)) (events (snd (check_latest_timestamp e j p w)))\<rparr>)"
  by (auto simp: check_latest_timestamp_def world_unfold split: option.splits node.splits)

lemma check_latest_timestamp_appends:
  "events (snd (check_latest_timestamp e j p w)) =
     events w @ drop (length (events w)) (events (snd (check_latest_timestamp e j p w)))"
  by (auto simp: check_latest_timestamp_def world_unfold split: option.splits node.splits)

lemma check_latest_timestamp_logs:
  "list_all is_log (drop (length (events w)) (events (snd (check_latest_timestamp e j p w))))"
  by (auto simp: check_latest_timestamp_def world_unfold split: option.splits node.splits)

lemma check_latest_timestamp_scheduler:
  "scheduler_jobs (snd (check_latest_timestamp e j p w)) = scheduler_jobs w"
  by (auto simp: check_latest_timestamp_def world_unfold split: option.splits node.splits)

lemma check_latest_timestamp_build_info:
  "fst (fst (check_latest_timestamp e j p w)) \<Longrightarrow> snd (fst (check_latest_timestamp e j p w)) \<noteq> None"
  by (auto simp: check_latest_timestamp_def world_unfold latest_key_in_table split: option.splits node.splits if_splits)

subsection \<open>What the dispatch job does after a change\<close>

lemma logging_eq: "logging l m a w = w\<lparr>events := events w @ [Log l m a]\<rparr>"
  by (simp add: logging_def emit_def)

lemma handle_specify_commands_Some:
  "handle_specify_commands cmd cfg (Some bi) =
     Inr (if cmd \<in> set [''run-hasal-on-specify-nightly'', ''download-specify-nightly'']
          then AList.update ''DOWNLOAD_REVISION'' (VStr (revision bi))
                 (AList.update ''DOWNLOAD_PKG_DIR_URL'' (VStr (archive_url bi)) cfg)
          else cfg)"
  by (simp add: handle_specify_commands_def)

lemma job_pushing_meta_task_changed:
  assumes ch: "check_latest_timestamp e j p w = ((True, Some bi), w1)"
    and h: "handle_specify_commands cmd cfg (Some bi) = Inr cfg'"
  shows "\<exists>logs1 logs2. list_all is_log logs1 \<and> list_all is_log logs2 \<and>
     job_pushing_meta_task e u pw cc j t k p cmd cfg w =
       (let fp = os_path_join (get_status_folder e) (create_job_id_folder e j);
            uids = map (\<lambda>i. now_string e @ ''.'' @ j @ ''.'' @ str_int i) [1..k];
            evs = events w @ logs1
                  @ [Create_job_id_folder j,
                     Create_status_file fp (STATUS_TAG_PULSE_TRIGGER e) 100 None]
                  @ logs2 @ map (Push_meta_task t cmd cfg') uids
        in case filter_cmd_config (mask_credential_value e) cfg' of
             Inl err \<Rightarrow> (Inl err, w1\<lparr>events := evs\<rparr>)
           | Inr masked \<Rightarrow>
               (Inr (),
                w1\<lparr>events := evs @
                   [Create_status_file fp (STATUS_TAG_PULSE_TRIGGER e) 900
                      (Some \<lparr>content_job_name = j, content_platform = p, content_topic = t,
                             content_amount = k, content_cmd = cmd,
                             content_cmd_config = masked,
                             content_task_uid_list = uids\<rparr>)]\<rparr>))"
proof -
  define new where "new = drop (length (events w)) (events w1)"
  define l0 where "l0 = Log INFO ''checking Job [{}], Platform [{}]...'' [AStr j, AStr p]"
  have new_logs: "list_all is_log new"
    using check_latest_timestamp_logs [where w=w and e=e and j=j and p=p] ch by (simp add: new_def)
  have chk: "check_latest_timestamp e j p (w\<lparr>events := events w @ [l0]\<rparr>)
             = ((True, Some bi), w1\<lparr>events := (events w @ [l0]) @ new\<rparr>)"
    using check_latest_timestamp_events [where e=e and j=j and p=p and w=w and evs="events w @ [l0]"] ch
    by (simp add: new_def)
  let ?logs1 = "[l0] @ new @ [Log INFO ''checking Job [{}], Platform [{}]... {}'' [AStr j, AStr p, ABool True]]"
  let ?logs2 = "(if check_pulse_queue_exists e u pw t then []
                 else [Log ERROR ''There is not Queue for Topic [{topic}]. Message might be ignored.'' [AStr t]])
                @ [Log INFO ''Pushing to Pulse...''
                    [AStr (now_string e @ ''.'' @ j), AStr j, AStr p, AStr t, AInt k, AStr cmd, AConfig cfg']]"
  have 1: "list_all is_log ?logs1" using new_logs by (simp add: l0_def)
  have 2: "list_all is_log ?logs2" by simp
  have 3: "job_pushing_meta_task e u pw cc j t k p cmd cfg w =
       (let fp = os_path_join (get_status_folder e) (create_job_id_folder e j);
            uids = map (\<lambda>i. now_string e @ ''.'' @ j @ ''.'' @ str_int i) [1..k];
            evs = events w @ ?logs1
                  @ [Create_job_id_folder j,
                     Create_status_file fp (STATUS_TAG_PULSE_TRIGGER e) 100 None]
                  @ ?logs2 @ map (Push_meta_task t cmd cfg') uids
        in case filter_cmd_config (mask_credential_value e) cfg' of
             Inl err \<Rightarrow> (Inl err, w1\<lparr>events := evs\<rparr>)
           | Inr masked \<Rightarrow>
               (Inr (),
                w1\<lparr>events := evs @
                   [Create_status_file fp (STATUS_TAG_PULSE_TRIGGER e) 900
                      (Some \<lparr>content_job_name = j, content_platform = p, content_topic = t,
                             content_amount = k, content_cmd = cmd,
                             content_cmd_config = masked,
                             content_task_uid_list = uids\<rparr>)]\<rparr>))"
    unfolding job_pushing_meta_task_def
    by (simp add: chk [unfolded l0_def] l0_def h push_loop_eq log_no_queue_def log_pushing_def
             logging_eq emit_def Let_def comp_def split: sum.splits)
  show ?thesis
    using 1 2 3 by blast
qed

subsection \<open>The enabled platforms\<close>

lemma platform_values_Cons:
  "{pb. pb \<noteq> [] \<and> (\<exists>name job. (name, job) \<in> set ((n, j) # cfg) \<and>
          KEY_JOBS_ENABLE job = Some True \<and> KEY_JOBS_PLATFORM_BUILD job = Some pb)} =
   {pb. pb \<noteq> [] \<and> KEY_JOBS_ENABLE j = Some True \<and> KEY_JOBS_PLATFORM_BUILD j = Some pb} \<union>
   {pb. pb \<noteq> [] \<and> (\<exists>name job. (name, job) \<in> set cfg \<and>
          KEY_JOBS_ENABLE job = Some True \<and> KEY_JOBS_PLATFORM_BUILD job = Some pb)}"
  by (rule set_eqI) (simp, blast)

lemma enabled_platform_loop_set:
  "set (enabled_platform_loop cfg s) =
     set s \<union> {pb. pb \<noteq> [] \<and> (\<exists>name job. (name, job) \<in> set cfg \<and>
                  KEY_JOBS_ENABLE job = Some True \<and> KEY_JOBS_PLATFORM_BUILD job = Some pb)}"
proof (induction cfg arbitrary: s)
  case Nil
  then show ?case by simp
next
  case (Cons a cfg)
  obtain name job where a: "a = (name, job)" by (cases a)
  show ?case
    unfolding a platform_values_Cons
    by (cases "KEY_JOBS_ENABLE job"; cases "KEY_JOBS_PLATFORM_BUILD job")
       (auto simp: Cons.IH Let_def)
qed

lemma enabled_platform_loop_distinct:
  "distinct s \<Longrightarrow> distinct (enabled_platform_loop cfg s)"
proof (induction cfg arbitrary: s)
  case Nil
  then show ?case by simp
next
  case (Cons a cfg)
  obtain name job where a: "a = (name, job)" by (cases a)
  show ?case
    unfolding a using Cons.prems
    by (cases "KEY_JOBS_ENABLE job"; cases "KEY_JOBS_PLATFORM_BUILD job")
       (auto simp: Let_def intro!: Cons.IH)
qed

text \<open>
  C10, as stated: the list returned by
  \<^verbatim>\<open>get_enabled_platform_list_from_trigger_jobs_config\<close> is the set of the
  \<^verbatim>\<open>platform_build\<close> values of the enabled jobs together with \<^verbatim>\<open>'win64'\<close>. This fails for
  an enabled job whose \<^verbatim>\<open>platform_build\<close> is the empty string: the guard
  \<^verbatim>\<open>if enable and platform_build\<close> leaves the empty string out, so the list is
  \<^verbatim>\<open>['win64']\<close> although the empty string is the \<^verbatim>\<open>platform_build\<close> of an enabled job.
\<close>

theorem enabled_platforms_empty_string_counterexample:
  "fst (get_enabled_platform_list_from_trigger_jobs_config
          [(''win7_x64'', job_without_platform)] fresh_world) = [''win64'']
   \<and> set (fst (get_enabled_platform_list_from_trigger_jobs_config
                 [(''win7_x64'', job_without_platform)] fresh_world))
       \<noteq> {pb. \<exists>name job. (name, job) \<in> set [(''win7_x64'', job_without_platform)] \<and>
               KEY_JOBS_ENABLE job = Some True \<and> KEY_JOBS_PLATFORM_BUILD job = Some pb}
           \<union> {''win64''}"
  by (auto simp: get_enabled_platform_list_from_trigger_jobs_config_def Let_def
        job_without_platform_def)

text \<open>
  C10, amended: for every jobs configuration (the empty one included) the list returned
  by \<^verbatim>\<open>get_enabled_platform_list_from_trigger_jobs_config\<close> contains \<^verbatim>\<open>'win64'\<close>, has no
  duplicates, and its elements are exactly \<^verbatim>\<open>'win64'\<close> and the non-empty
  \<^verbatim>\<open>platform_build\<close> values of the jobs whose \<^verbatim>\<open>enable\<close> is true.
\<close>

theorem enabled_platform_list_is_win64_and_enabled:
  "set (fst (get_enabled_platform_list_from_trigger_jobs_config cfg w)) =
     insert ''win64''
       {pb. pb \<noteq> [] \<and> (\<exists>name job. (name, job) \<in> set cfg \<and>
              KEY_JOBS_ENABLE job = Some True \<and> KEY_JOBS_PLATFORM_BUILD job = Some pb)}
   \<and> distinct (fst (get_enabled_platform_list_from_trigger_jobs_config cfg w))
   \<and> ''win64'' \<in> set (fst (get_enabled_platform_list_from_trigger_jobs_config cfg w))"
  by (simp add: get_enabled_platform_list_from_trigger_jobs_config_def Let_def
      enabled_platform_loop_set enabled_platform_loop_distinct)

subsection \<open>Events by kind\<close>

lemma map_filter_append:
  "List.map_filter f (xs @ ys) = List.map_filter f xs @ List.map_filter f ys"
  by (simp add: List.map_filter_def)

lemma logs_no_uid: "list_all is_log l \<Longrightarrow> List.map_filter pushed_uid l = []"
proof (induction l)
  case Nil
  then show ?case by simp
next
  case (Cons ev l)
  then show ?case by (cases ev) simp_all
qed

lemma logs_no_push: "list_all is_log l \<Longrightarrow> filter is_push l = []"
proof (induction l)
  case Nil
  then show ?case by simp
next
  case (Cons ev l)
  then show ?case by (cases ev) simp_all
qed

lemma logs_no_status: "list_all is_log l \<Longrightarrow> filter is_status l = []"
proof (induction l)
  case Nil
  then show ?case by simp
next
  case (Cons ev l)
  then show ?case by (cases ev) simp_all
qed

lemma logs_no_action: "list_all is_log l \<Longrightarrow> filter (\<lambda>ev. \<not> is_log ev) l = []"
  by (induction l) simp_all

lemma uids_of_pushes:
  "List.map_filter pushed_uid (map (\<lambda>i. Push_meta_task t c cfg (f i)) xs) = map f xs"
  by (induction xs) simp_all

lemma pushes_are_pushes:
  "filter is_push (map (\<lambda>i. Push_meta_task t c cfg (f i)) xs) =
     map (\<lambda>i. Push_meta_task t c cfg (f i)) xs"
  by (induction xs) simp_all

lemma pushes_are_actions:
  "filter (\<lambda>ev. \<not> is_log ev) (map (\<lambda>i. Push_meta_task t c cfg (f i)) xs) =
     map (\<lambda>i. Push_meta_task t c cfg (f i)) xs"
  by (induction xs) simp_all

lemma pushes_no_status:
  "filter is_status (map (\<lambda>i. Push_meta_task t c cfg (f i)) xs) = []"
  by (induction xs) simp_all

lemma changed_result:
  assumes "fst (fst (check_latest_timestamp e j p w))"
  obtains bi w1 where "check_latest_timestamp e j p w = ((True, Some bi), w1)"
proof -
  obtain c b w1 where r: "check_latest_timestamp e j p w = ((c, b), w1)"
    by (metis surj_pair)
  with assms have c: "c" by simp
  from check_latest_timestamp_build_info [OF assms] r obtain bi where "b = Some bi" by auto
  with r c that show thesis by simp
qed

subsection \<open>Evaluating the concrete inputs\<close>

lemma str_int_1: "str_int 1 = ''1''" by code_simp
lemma str_int_2: "str_int 2 = ''2''" by code_simp

lemmas example_defs = example_env_def example_table_def fresh_world_def stored_world_def
  ARCHIVE_ROOT_URL_def ARCHIVE_LATEST_FOLDER_def listing_body_def

lemma example_change:
  "check_latest_timestamp (example_env []) ''B'' ''win64'' fresh_world =
     ((True, Some \<lparr>archive_url = ''https://archive.mozilla.org/pub/firefox/nightly/2020/02/02/'',
                   revision = ''abc123''\<rparr>),
      \<lparr>fs = (\<lambda>d. Absent)(TIMESTAMP_FOLDER := Folder [''B'' \<mapsto> ''2020-02-02T02:00:00'']),
       scheduler_jobs = [],
       events = [Log INFO ''Job {} platform {}: Latest timestamp [{}], no origin timestamp.''
                   [AStr ''B'', AStr ''win64'', AStr ''2020-02-02T02:00:00'']]\<rparr>)"
  by (simp add: check_latest_timestamp_def example_defs world_unfold)

subsection \<open>The fan-out\<close>

text \<open>
  C4: when the check of \<^verbatim>\<open>job_pushing_meta_task\<close> reports a change and \<^verbatim>\<open>amount\<close> is
  \<open>k \<ge> 1\<close>, the job pushes exactly \<open>k\<close> messages; their uids are, in order,
  \<^verbatim>\<open>'{prefix}.1'\<close> to \<^verbatim>\<open>'{prefix}.k'\<close> with the one prefix \<^verbatim>\<open>'{time}.{job}'\<close> built from
  the timestamp of the dispatch and the name of the job, and they are pairwise
  distinct. (The uids pushed by the run are those the world holds after it beyond those
  it held before.)
\<close>

theorem fan_out_uids:
  assumes "fst (fst (check_latest_timestamp e job_name platform_build w))"
    and "1 \<le> amount"
  shows "pushed_uids (snd (job_pushing_meta_task e username password command_config job_name
                       topic amount platform_build cmd_name overwrite_cmd_config w))
         = pushed_uids w @
           map (\<lambda>i. (now_string e @ ''.'' @ job_name) @ ''.'' @ str_int i) [1..amount]
       \<and> length (map (\<lambda>i. (now_string e @ ''.'' @ job_name) @ ''.'' @ str_int i) [1..amount])
         = nat amount
       \<and> distinct (map (\<lambda>i. (now_string e @ ''.'' @ job_name) @ ''.'' @ str_int i) [1..amount])"
proof -
  from assms(1) obtain bi w1 where
    ch: "check_latest_timestamp e job_name platform_build w = ((True, Some bi), w1)"
    by (rule changed_result)
  obtain cfg' where h: "handle_specify_commands cmd_name overwrite_cmd_config (Some bi) = Inr cfg'"
    by (simp add: handle_specify_commands_Some)
  from job_pushing_meta_task_changed [OF ch h, of username password command_config topic amount]
  obtain logs1 logs2 where l1: "list_all is_log logs1" and l2: "list_all is_log logs2"
    and job: "job_pushing_meta_task e username password command_config job_name
                topic amount platform_build cmd_name overwrite_cmd_config w =
       (let fp = os_path_join (get_status_folder e) (create_job_id_folder e job_name);
            uids = map (\<lambda>i. now_string e @ ''.'' @ job_name @ ''.'' @ str_int i) [1..amount];
            evs = events w @ logs1
                  @ [Create_job_id_folder job_name,
                     Create_status_file fp (STATUS_TAG_PULSE_TRIGGER e) 100 None]
                  @ logs2 @ map (Push_meta_task topic cmd_name cfg') uids
        in case filter_cmd_config (mask_credential_value e) cfg' of
             Inl err \<Rightarrow> (Inl err, w1\<lparr>events := evs\<rparr>)
           | Inr masked \<Rightarrow>
               (Inr (),
                w1\<lparr>events := evs @
                   [Create_status_file fp (STATUS_TAG_PULSE_TRIGGER e) 900
                      (Some \<lparr>content_job_name = job_name, content_platform = platform_build,
                             content_topic = topic,
                             content_amount = amount, content_cmd = cmd_name,
                             content_cmd_config = masked,
                             content_task_uid_list = uids\<rparr>)]\<rparr>))"
    by blast
  have a: "pushed_uids (snd (job_pushing_meta_task e username password command_config job_name
                       topic amount platform_build cmd_name overwrite_cmd_config w))
         = pushed_uids w @
           map (\<lambda>i. (now_string e @ ''.'' @ job_name) @ ''.'' @ str_int i) [1..amount]"
    unfolding job
    by (cases "filter_cmd_config (mask_credential_value e) cfg'")
       (simp_all add: pushed_uids_def Let_def map_filter_append logs_no_uid [OF l1]
          logs_no_uid [OF l2] uids_of_pushes comp_def)
  have b: "length (map (\<lambda>i. (now_string e @ ''.'' @ job_name) @ ''.'' @ str_int i) [1..amount])
         = nat amount"
    using assms(2) by simp
  show ?thesis using a b uids_distinct [of "now_string e @ ''.'' @ job_name" amount] by simp
qed

theorem fan_out_uids_witness:
  "fst (fst (check_latest_timestamp (example_env []) ''B'' ''win64'' fresh_world))
   \<and> (1::int) \<le> 2
   \<and> pushed_uids (snd (job_pushing_meta_task (example_env []) ''user'' ''secret'' [] ''B''
                           ''win7'' 2 ''win64'' ''download-latest-nightly'' [] fresh_world))
       = [''2020-02-02_03:00:00.000001.B.1'', ''2020-02-02_03:00:00.000001.B.2'']"
proof -
  have c: "fst (fst (check_latest_timestamp (example_env []) ''B'' ''win64'' fresh_world))"
    by (simp add: example_change)
  have k: "(1::int) \<le> 2" by simp
  have n: "now_string (example_env []) = ''2020-02-02_03:00:00.000001''"
    by (simp add: example_env_def)
  have u: "[1..2::int] = [1, 2]" by (simp add: upto.simps)
  from fan_out_uids [OF c k, of "''user''" "''secret''" "[]" "''win7''" "''download-latest-nightly''" "[]"]
  show ?thesis using c
    by (simp add: n u str_int_1 str_int_2 pushed_uids_def fresh_world_def)
qed

subsection \<open>The configuration that goes out\<close>

lemma filter_loop_well_typed:
  "(\<forall>v. (''OVERWRITE_HASAL_SUITE_CASE_LIST'', v) \<in> set items \<longrightarrow>
        (\<exists>vs. v = VList vs) \<or> (\<exists>s. v = VStr s))
   \<Longrightarrow> \<exists>r. filter_loop masking items ret = Inr r"
proof (induction items arbitrary: ret)
  case Nil
  then show ?case by simp
next
  case (Cons a items)
  obtain k v where a: "a = (k, v)" by (cases a)
  from Cons.prems have rest: "\<forall>v. (''OVERWRITE_HASAL_SUITE_CASE_LIST'', v) \<in> set items \<longrightarrow>
        (\<exists>vs. v = VList vs) \<or> (\<exists>s. v = VStr s)" by simp
  show ?case
  proof (cases "k = ''OVERWRITE_HASAL_SUITE_CASE_LIST''")
    case True
    with Cons.prems a have "(\<exists>vs. v = VList vs) \<or> (\<exists>s. v = VStr s)" by simp
    then show ?thesis using Cons.IH [OF rest] a True by auto
  next
    case False
    then show ?thesis using Cons.IH [OF rest] a by simp
  qed
qed

lemma update_other_entries:
  "k \<noteq> k' \<Longrightarrow> (k', v') \<in> set (AList.update k v al) \<Longrightarrow> (k', v') \<in> set al"
  by (induction al) (auto split: if_splits)

lemma handle_specify_commands_case_list:
  assumes "handle_specify_commands cmd cfg (Some bi) = Inr out"
    and "(''OVERWRITE_HASAL_SUITE_CASE_LIST'', v) \<in> set out"
  shows "(''OVERWRITE_HASAL_SUITE_CASE_LIST'', v) \<in> set cfg"
proof (cases "cmd \<in> set [''run-hasal-on-specify-nightly'', ''download-specify-nightly'']")
  case True
  with assms(1) have "out = AList.update ''DOWNLOAD_REVISION'' (VStr (revision bi))
                 (AList.update ''DOWNLOAD_PKG_DIR_URL'' (VStr (archive_url bi)) cfg)"
    by (simp add: handle_specify_commands_Some)
  with assms(2) have "(''OVERWRITE_HASAL_SUITE_CASE_LIST'', v) \<in>
      set (AList.update ''DOWNLOAD_PKG_DIR_URL'' (VStr (archive_url bi)) cfg)"
    using update_other_entries [of "''DOWNLOAD_REVISION''" "''OVERWRITE_HASAL_SUITE_CASE_LIST''"] by simp
  then show ?thesis
    using update_other_entries [of "''DOWNLOAD_PKG_DIR_URL''" "''OVERWRITE_HASAL_SUITE_CASE_LIST''"] by simp
next
  case False
  with assms show ?thesis by (simp add: handle_specify_commands_Some)
qed

lemma upto_1_1: "[1..1::int] = [1]" by (simp add: upto.simps)
lemma upto_1_2: "[1..2::int] = [1, 2]" by (simp add: upto.simps)

lemmas job_eval = job_pushing_meta_task_def check_latest_timestamp_def example_defs world_unfold
  push_loop_eq log_no_queue_def log_pushing_def handle_specify_commands_def filter_cmd_config_def
  mask_values_def os_path_join_def startswith_def endswith_def upto_1_1 upto_1_2 str_int_1 str_int_2

text \<open>
  C8: in every dispatch (a run of \<^verbatim>\<open>job_pushing_meta_task\<close> whose check reports a change
  and the \<^verbatim>\<open>BuildInformation\<close> \<open>bi\<close>), every message pushed carries the configuration
  that \<^verbatim>\<open>handle_specify_commands\<close> returns. For the commands
  \<^verbatim>\<open>run-hasal-on-specify-nightly\<close> and \<^verbatim>\<open>download-specify-nightly\<close> that is the input
  configuration with the archive URL of \<open>bi\<close> under \<^verbatim>\<open>DOWNLOAD_PKG_DIR_URL\<close> and its
  revision under \<^verbatim>\<open>DOWNLOAD_REVISION\<close>; for every other command it is the input
  configuration itself.
\<close>

theorem outgoing_config:
  assumes "fst (check_latest_timestamp e job_name platform_build w) = (True, Some bi)"
  shows "\<exists>out.
      handle_specify_commands cmd_name overwrite_cmd_config (Some bi) = Inr out
    \<and> pushed (snd (job_pushing_meta_task e username password command_config job_name
                      topic amount platform_build cmd_name overwrite_cmd_config w))
        = pushed w @
          map (\<lambda>i. Push_meta_task topic cmd_name out
                      ((now_string e @ ''.'' @ job_name) @ ''.'' @ str_int i)) [1..amount]
    \<and> (if cmd_name = ''run-hasal-on-specify-nightly'' \<or> cmd_name = ''download-specify-nightly''
        then map_of out = (map_of overwrite_cmd_config)
                            (''DOWNLOAD_PKG_DIR_URL'' \<mapsto> VStr (archive_url bi),
                             ''DOWNLOAD_REVISION'' \<mapsto> VStr (revision bi))
        else out = overwrite_cmd_config)"
proof -
  obtain w1 where ch: "check_latest_timestamp e job_name platform_build w = ((True, Some bi), w1)"
    using assms by (cases "check_latest_timestamp e job_name platform_build w") simp
  obtain out where h: "handle_specify_commands cmd_name overwrite_cmd_config (Some bi) = Inr out"
    by (simp add: handle_specify_commands_Some)
  from job_pushing_meta_task_changed [OF ch h, of username password command_config topic amount]
  obtain logs1 logs2 where l1: "list_all is_log logs1" and l2: "list_all is_log logs2"
    and job: "job_pushing_meta_task e username password command_config job_name
                topic amount platform_build cmd_name overwrite_cmd_config w =
       (let fp = os_path_join (get_status_folder e) (create_job_id_folder e job_name);
            uids = map (\<lambda>i. now_string e @ ''.'' @ job_name @ ''.'' @ str_int i) [1..amount];
            evs = events w @ logs1
                  @ [Create_job_id_folder job_name,
                     Create_status_file fp (STATUS_TAG_PULSE_TRIGGER e) 100 None]
                  @ logs2 @ map (Push_meta_task topic cmd_name out) uids
        in case filter_cmd_config (mask_credential_value e) out of
             Inl err \<Rightarrow> (Inl err, w1\<lparr>events := evs\<rparr>)
           | Inr masked \<Rightarrow>
               (Inr (),
                w1\<lparr>events := evs @
                   [Create_status_file fp (STATUS_TAG_PULSE_TRIGGER e) 900
                      (Some \<lparr>content_job_name = job_name, content_platform = platform_build,
                             content_topic = topic,
                             content_amount = amount, content_cmd = cmd_name,
                             content_cmd_config = masked,
                             content_task_uid_list = uids\<rparr>)]\<rparr>))"
    by blast
  have a: "pushed (snd (job_pushing_meta_task e username password command_config job_name
                      topic amount platform_build cmd_name overwrite_cmd_config w))
        = pushed w @
          map (\<lambda>i. Push_meta_task topic cmd_name out
                      ((now_string e @ ''.'' @ job_name) @ ''.'' @ str_int i)) [1..amount]"
    unfolding job
    by (cases "filter_cmd_config (mask_credential_value e) out")
       (simp_all add: pushed_def Let_def logs_no_push [OF l1] logs_no_push [OF l2]
          pushes_are_pushes comp_def)
  have b: "(if cmd_name = ''run-hasal-on-specify-nightly'' \<or> cmd_name = ''download-specify-nightly''
        then map_of out = (map_of overwrite_cmd_config)
                            (''DOWNLOAD_PKG_DIR_URL'' \<mapsto> VStr (archive_url bi),
                             ''DOWNLOAD_REVISION'' \<mapsto> VStr (revision bi))
        else out = overwrite_cmd_config)"
    using h by (auto simp: handle_specify_commands_Some update_conv')
  show ?thesis using h a b by blast
qed

theorem outgoing_config_witness:
  "fst (check_latest_timestamp (example_env []) ''B'' ''win64'' fresh_world)
     = (True, Some \<lparr>archive_url = ''https://archive.mozilla.org/pub/firefox/nightly/2020/02/02/'',
                     revision = ''abc123''\<rparr>)
   \<and> pushed (snd (job_pushing_meta_task (example_env []) ''user'' ''secret'' [] ''B''
                     ''win7'' 1 ''win64'' ''download-specify-nightly'' [(''MAX_RUN'', VInt 30)]
                     fresh_world))
       = [Push_meta_task ''win7'' ''download-specify-nightly''
            [(''MAX_RUN'', VInt 30),
             (''DOWNLOAD_PKG_DIR_URL'',
              VStr ''https://archive.mozilla.org/pub/firefox/nightly/2020/02/02/''),
             (''DOWNLOAD_REVISION'', VStr ''abc123'')]
            ''2020-02-02_03:00:00.000001.B.1'']
   \<and> pushed (snd (job_pushing_meta_task (example_env []) ''user'' ''secret'' [] ''B''
                     ''win7'' 1 ''win64'' ''download-latest-nightly'' [(''MAX_RUN'', VInt 30)]
                     fresh_world))
       = [Push_meta_task ''win7'' ''download-latest-nightly'' [(''MAX_RUN'', VInt 30)]
            ''2020-02-02_03:00:00.000001.B.1'']"
proof -
  have c: "fst (check_latest_timestamp (example_env []) ''B'' ''win64'' fresh_world)
     = (True, Some \<lparr>archive_url = ''https://archive.mozilla.org/pub/firefox/nightly/2020/02/02/'',
                     revision = ''abc123''\<rparr>)"
    by (simp add: example_change)
  have n: "now_string (example_env []) = ''2020-02-02_03:00:00.000001''"
    by (simp add: example_env_def)
  have p: "pushed fresh_world = []" by (simp add: pushed_def fresh_world_def)
  from outgoing_config [OF c, of "''download-specify-nightly''" "[(''MAX_RUN'', VInt 30)]"
       "''user''" "''secret''" "[]" "''win7''" 1]
  have 1: "pushed (snd (job_pushing_meta_task (example_env []) ''user'' ''secret'' [] ''B''
                     ''win7'' 1 ''win64'' ''download-specify-nightly'' [(''MAX_RUN'', VInt 30)]
                     fresh_world))
       = [Push_meta_task ''win7'' ''download-specify-nightly''
            [(''MAX_RUN'', VInt 30),
             (''DOWNLOAD_PKG_DIR_URL'',
              VStr ''https://archive.mozilla.org/pub/firefox/nightly/2020/02/02/''),
             (''DOWNLOAD_REVISION'', VStr ''abc123'')]
            ''2020-02-02_03:00:00.000001.B.1'']"
    by (auto simp: handle_specify_commands_def n p upto_1_1 str_int_1)
  from outgoing_config [OF c, of "''download-latest-nightly''" "[(''MAX_RUN'', VInt 30)]"
       "''user''" "''secret''" "[]" "''win7''" 1]
  have 2: "pushed (snd (job_pushing_meta_task (example_env []) ''user'' ''secret'' [] ''B''
                     ''win7'' 1 ''win64'' ''download-latest-nightly'' [(''MAX_RUN'', VInt 30)]
                     fresh_world))
       = [Push_meta_task ''win7'' ''download-latest-nightly'' [(''MAX_RUN'', VInt 30)]
            ''2020-02-02_03:00:00.000001.B.1'']"
    by (auto simp: handle_specify_commands_def n p upto_1_1 str_int_1)
  show ?thesis using c 1 2 by simp
qed

subsection \<open>The two status records\<close>

text \<open>
  C7, as stated: every dispatch triggered by a detected change writes the record with
  marker 900 after the messages. This fails when the value under
  \<^verbatim>\<open>OVERWRITE_HASAL_SUITE_CASE_LIST\<close> is neither a list nor a string: the message is
  pushed, then \<^verbatim>\<open>filter_cmd_config\<close> raises \<^verbatim>\<open>AttributeError\<close> while the content of the
  second record is built, and only the record with marker 100 exists.
\<close>

theorem no_completed_record_counterexample:
  "fst (fst (check_latest_timestamp (example_env []) ''B'' ''win64'' fresh_world))
   \<and> fst (job_pushing_meta_task (example_env []) ''user'' ''secret'' [] ''B''
             ''win7'' 1 ''win64'' ''download-latest-nightly''
             [(''OVERWRITE_HASAL_SUITE_CASE_LIST'', VInt 5)] fresh_world) = Inl AttributeError
   \<and> actions (snd (job_pushing_meta_task (example_env []) ''user'' ''secret'' [] ''B''
                 ''win7'' 1 ''win64'' ''download-latest-nightly''
                 [(''OVERWRITE_HASAL_SUITE_CASE_LIST'', VInt 5)] fresh_world))
       = [Create_job_id_folder ''B'',
          Create_status_file ''/status/B-1'' ''pulse_trigger'' 100 None,
          Push_meta_task ''win7'' ''download-latest-nightly''
            [(''OVERWRITE_HASAL_SUITE_CASE_LIST'', VInt 5)] ''2020-02-02_03:00:00.000001.B.1'']"
  by (simp add: job_eval actions_def)

text \<open>
  C7, amended: in every dispatch of \<^verbatim>\<open>job_pushing_meta_task\<close> (the job that \<^verbatim>\<open>run\<close>
  registers) triggered by a detected change in which the value under
  \<^verbatim>\<open>OVERWRITE_HASAL_SUITE_CASE_LIST\<close>, if the configuration has one, is a list or a
  string, the job returns normally and its calls to the collaborators are, in order: the
  status folder of the run is created, the status record with marker 100 (and no
  content) is written, the \<^verbatim>\<open>amount\<close> messages are pushed, and the status record with
  marker 900 is written, whose content holds the job name, the platform, the topic, the
  amount, the command, the configuration as \<^verbatim>\<open>filter_cmd_config\<close> returns it, and the
  list of all uids pushed.
\<close>

theorem status_records_around_pushes:
  assumes "fst (fst (check_latest_timestamp e job_name platform_build w))"
    and "\<forall>v. (''OVERWRITE_HASAL_SUITE_CASE_LIST'', v) \<in> set overwrite_cmd_config \<longrightarrow>
           (\<exists>vs. v = VList vs) \<or> (\<exists>s. v = VStr s)"
  shows "\<exists>cmd_config masked.
      handle_specify_commands cmd_name overwrite_cmd_config
        (snd (fst (check_latest_timestamp e job_name platform_build w))) = Inr cmd_config
    \<and> filter_cmd_config (mask_credential_value e) cmd_config = Inr masked
    \<and> fst (job_pushing_meta_task e username password command_config job_name
              topic amount platform_build cmd_name overwrite_cmd_config w) = Inr ()
    \<and> actions (snd (job_pushing_meta_task e username password command_config job_name
                       topic amount platform_build cmd_name overwrite_cmd_config w))
        = actions w
          @ [Create_job_id_folder job_name,
             Create_status_file (os_path_join (get_status_folder e) (create_job_id_folder e job_name))
               (STATUS_TAG_PULSE_TRIGGER e) 100 None]
          @ map (\<lambda>i. Push_meta_task topic cmd_name cmd_config
                        ((now_string e @ ''.'' @ job_name) @ ''.'' @ str_int i)) [1..amount]
          @ [Create_status_file (os_path_join (get_status_folder e) (create_job_id_folder e job_name))
               (STATUS_TAG_PULSE_TRIGGER e) 900
               (Some \<lparr>content_job_name = job_name,
                      content_platform = platform_build,
                      content_topic = topic,
                      content_amount = amount,
                      content_cmd = cmd_name,
                      content_cmd_config = masked,
                      content_task_uid_list =
                        map (\<lambda>i. (now_string e @ ''.'' @ job_name) @ ''.'' @ str_int i)
                          [1..amount]\<rparr>)]"
proof -
  from assms(1) obtain bi w1 where
    ch: "check_latest_timestamp e job_name platform_build w = ((True, Some bi), w1)"
    by (rule changed_result)
  obtain out where h: "handle_specify_commands cmd_name overwrite_cmd_config (Some bi) = Inr out"
    by (simp add: handle_specify_commands_Some)
  have "\<forall>v. (''OVERWRITE_HASAL_SUITE_CASE_LIST'', v) \<in> set out \<longrightarrow>
           (\<exists>vs. v = VList vs) \<or> (\<exists>s. v = VStr s)"
    using assms(2) handle_specify_commands_case_list [OF h] by blast
  then obtain masked where m: "filter_cmd_config (mask_credential_value e) out = Inr masked"
    using filter_loop_well_typed [of out "mask_credential_value e" out]
    by (auto simp: filter_cmd_config_def)
  from job_pushing_meta_task_changed [OF ch h, of username password command_config topic amount]
  obtain logs1 logs2 where l1: "list_all is_log logs1" and l2: "list_all is_log logs2"
    and job: "job_pushing_meta_task e username password command_config job_name
                topic amount platform_build cmd_name overwrite_cmd_config w =
       (let fp = os_path_join (get_status_folder e) (create_job_id_folder e job_name);
            uids = map (\<lambda>i. now_string e @ ''.'' @ job_name @ ''.'' @ str_int i) [1..amount];
            evs = events w @ logs1
                  @ [Create_job_id_folder job_name,
                     Create_status_file fp (STATUS_TAG_PULSE_TRIGGER e) 100 None]
                  @ logs2 @ map (Push_meta_task topic cmd_name out) uids
        in case filter_cmd_config (mask_credential_value e) out of
             Inl err \<Rightarrow> (Inl err, w1\<lparr>events := evs\<rparr>)
           | Inr masked \<Rightarrow>
               (Inr (),
                w1\<lparr>events := evs @
                   [Create_status_file fp (STATUS_TAG_PULSE_TRIGGER e) 900
                      (Some \<lparr>content_job_name = job_name, content_platform = platform_build,
                             content_topic = topic,
                             content_amount = amount, content_cmd = cmd_name,
                             content_cmd_config = masked,
                             content_task_uid_list = uids\<rparr>)]\<rparr>))"
    by blast
  have r: "fst (job_pushing_meta_task e username password command_config job_name
              topic amount platform_build cmd_name overwrite_cmd_config w) = Inr ()"
    unfolding job by (simp add: m Let_def)
  have a: "actions (snd (job_pushing_meta_task e username password command_config job_name
                       topic amount platform_build cmd_name overwrite_cmd_config w))
        = actions w
          @ [Create_job_id_folder job_name,
             Create_status_file (os_path_join (get_status_folder e) (create_job_id_folder e job_name))
               (STATUS_TAG_PULSE_TRIGGER e) 100 None]
          @ map (\<lambda>i. Push_meta_task topic cmd_name out
                        ((now_string e @ ''.'' @ job_name) @ ''.'' @ str_int i)) [1..amount]
          @ [Create_status_file (os_path_join (get_status_folder e) (create_job_id_folder e job_name))
               (STATUS_TAG_PULSE_TRIGGER e) 900
               (Some \<lparr>content_job_name = job_name,
                      content_platform = platform_build,
                      content_topic = topic,
                      content_amount = amount,
                      content_cmd = cmd_name,
                      content_cmd_config = masked,
                      content_task_uid_list =
                        map (\<lambda>i. (now_string e @ ''.'' @ job_name) @ ''.'' @ str_int i)
                          [1..amount]\<rparr>)]"
    unfolding job
    by (simp add: m actions_def Let_def logs_no_action [OF l1] logs_no_action [OF l2]
          pushes_are_actions comp_def)
  have h': "handle_specify_commands cmd_name overwrite_cmd_config
        (snd (fst (check_latest_timestamp e job_name platform_build w))) = Inr out"
    using h ch by simp
  show ?thesis using h' m r a by blast
qed

theorem status_records_around_pushes_witness:
  "fst (fst (check_latest_timestamp (example_env []) ''B'' ''win64'' fresh_world))
   \<and> fst (job_pushing_meta_task (example_env []) ''user'' ''secret'' [] ''B''
             ''win7'' 2 ''win64'' ''download-latest-nightly''
             [(''OVERWRITE_HASAL_SUITE_CASE_LIST'', VStr ''a,b''),
              (''pulse_password'', VStr ''hunter2'')] fresh_world) = Inr ()
   \<and> actions (snd (job_pushing_meta_task (example_env []) ''user'' ''secret'' [] ''B''
                 ''win7'' 2 ''win64'' ''download-latest-nightly''
                 [(''OVERWRITE_HASAL_SUITE_CASE_LIST'', VStr ''a,b''),
                  (''pulse_password'', VStr ''hunter2'')] fresh_world))
       = [Create_job_id_folder ''B'',
          Create_status_file ''/status/B-1'' ''pulse_trigger'' 100 None,
          Push_meta_task ''win7'' ''download-latest-nightly''
            [(''OVERWRITE_HASAL_SUITE_CASE_LIST'', VStr ''a,b''),
             (''pulse_password'', VStr ''hunter2'')] ''2020-02-02_03:00:00.000001.B.1'',
          Push_meta_task ''win7'' ''download-latest-nightly''
            [(''OVERWRITE_HASAL_SUITE_CASE_LIST'', VStr ''a,b''),
             (''pulse_password'', VStr ''hunter2'')] ''2020-02-02_03:00:00.000001.B.2'',
          Create_status_file ''/status/B-1'' ''pulse_trigger'' 900
            (Some \<lparr>content_job_name = ''B'', content_platform = ''win64'',
                   content_topic = ''win7'', content_amount = 2,
                   content_cmd = ''download-latest-nightly'',
                   content_cmd_config =
                     [(''OVERWRITE_HASAL_SUITE_CASE_LIST'', VList [VStr ''a'', VStr ''b'']),
                      (''pulse_password'', VStr ''***'')],
                   content_task_uid_list =
                     [''2020-02-02_03:00:00.000001.B.1'',
                      ''2020-02-02_03:00:00.000001.B.2'']\<rparr>)]"
proof -
  have c: "fst (fst (check_latest_timestamp (example_env []) ''B'' ''win64'' fresh_world))"
    by (simp add: example_change)
  have t: "\<forall>v. (''OVERWRITE_HASAL_SUITE_CASE_LIST'', v) \<in>
             set [(''OVERWRITE_HASAL_SUITE_CASE_LIST'', VStr ''a,b''),
                  (''pulse_password'', VStr ''hunter2'')] \<longrightarrow>
           (\<exists>vs. v = VList vs) \<or> (\<exists>s. v = VStr s)"
    by simp
  have a: "actions fresh_world = []" by (simp add: actions_def fresh_world_def)
  have e: "now_string (example_env []) = ''2020-02-02_03:00:00.000001''"
     "get_status_folder (example_env []) = ''/status''"
     "create_job_id_folder (example_env []) ''B'' = ''B-1''"
     "STATUS_TAG_PULSE_TRIGGER (example_env []) = ''pulse_trigger''"
     "mask_credential_value (example_env []) = mask_values [''pulse_password''] ''***''"
    by (simp_all add: example_env_def)
  from status_records_around_pushes [OF c t, of "''download-latest-nightly''"
         "''user''" "''secret''" "[]" "''win7''" 2]
  show ?thesis using c
    by (auto simp: e a example_change handle_specify_commands_def filter_cmd_config_def
          mask_values_def os_path_join_def startswith_def endswith_def upto_1_2 str_int_1 str_int_2)
qed

subsection \<open>The case list in the filtered configuration\<close>

lemma filter_loop_without_case_list:
  assumes "\<forall>c. map_of (masking c) ''OVERWRITE_HASAL_SUITE_CASE_LIST'' =
               map_of c ''OVERWRITE_HASAL_SUITE_CASE_LIST''"
    and "''OVERWRITE_HASAL_SUITE_CASE_LIST'' \<notin> fst ` set items"
  shows "\<exists>r. filter_loop masking items ret = Inr r \<and>
             map_of r ''OVERWRITE_HASAL_SUITE_CASE_LIST'' =
             map_of ret ''OVERWRITE_HASAL_SUITE_CASE_LIST''"
  using assms(2)
proof (induction items arbitrary: ret)
  case Nil
  then show ?case by simp
next
  case (Cons a items)
  obtain k v where a: "a = (k, v)" by (cases a)
  with Cons.prems have k: "k \<noteq> ''OVERWRITE_HASAL_SUITE_CASE_LIST''"
    and rest: "''OVERWRITE_HASAL_SUITE_CASE_LIST'' \<notin> fst ` set items" by auto
  from Cons.IH [OF rest, of "masking ret"] assms(1) show ?case
    using a k by simp
qed

lemma filter_loop_case_list:
  assumes "\<forall>c. map_of (masking c) ''OVERWRITE_HASAL_SUITE_CASE_LIST'' =
               map_of c ''OVERWRITE_HASAL_SUITE_CASE_LIST''"
    and "distinct (map fst items)"
    and "map_of items ''OVERWRITE_HASAL_SUITE_CASE_LIST'' = Some v"
    and "v = VList vs \<or> v = VStr s"
  shows "\<exists>r. filter_loop masking items ret = Inr r \<and>
             map_of r ''OVERWRITE_HASAL_SUITE_CASE_LIST'' =
             Some (case v of VStr s \<Rightarrow> VList (map VStr (split_chr CHR '','' s)) | _ \<Rightarrow> v)"
  using assms(2,3)
proof (induction items arbitrary: ret)
  case Nil
  then show ?case by simp
next
  case (Cons a items)
  obtain k w where a: "a = (k, w)" by (cases a)
  show ?case
  proof (cases "k = ''OVERWRITE_HASAL_SUITE_CASE_LIST''")
    case True
    with Cons.prems a have w: "w = v" and rest: "''OVERWRITE_HASAL_SUITE_CASE_LIST'' \<notin> fst ` set items"
      by auto
    from assms(4) show ?thesis
    proof
      assume l: "v = VList vs"
      from filter_loop_without_case_list [OF assms(1) rest,
             of "masking (AList.update ''OVERWRITE_HASAL_SUITE_CASE_LIST'' (VList vs) ret)"]
      show ?thesis using a True w l assms(1) by (simp add: update_conv')
    next
      assume l: "v = VStr s"
      from filter_loop_without_case_list [OF assms(1) rest,
             of "masking (AList.update ''OVERWRITE_HASAL_SUITE_CASE_LIST''
                   (VList (map VStr (split_chr CHR '','' s))) ret)"]
      show ?thesis using a True w l assms(1) by (simp add: update_conv')
    qed
  next
    case False
    with Cons.prems a have d: "distinct (map fst items)"
      and m: "map_of items ''OVERWRITE_HASAL_SUITE_CASE_LIST'' = Some v" by auto
    from Cons.IH [OF d m, of "masking ret"] show ?thesis using a False by simp
  qed
qed

lemma mask_values_keeps_case_list:
  "\<forall>c. map_of (mask_values [''pulse_password''] ''***'' c) ''OVERWRITE_HASAL_SUITE_CASE_LIST'' =
       map_of c ''OVERWRITE_HASAL_SUITE_CASE_LIST''"
proof
  fix c :: config
  show "map_of (mask_values [''pulse_password''] ''***'' c) ''OVERWRITE_HASAL_SUITE_CASE_LIST'' =
        map_of c ''OVERWRITE_HASAL_SUITE_CASE_LIST''"
    by (induction c) (auto simp: mask_values_def)
qed

text \<open>
  C9, as stated: for every input configuration the configuration returned by
  \<^verbatim>\<open>filter_cmd_config\<close> holds a sequence under \<^verbatim>\<open>OVERWRITE_HASAL_SUITE_CASE_LIST\<close>. This
  fails when the value under that key is neither a list nor a string: \<^verbatim>\<open>.split\<close> raises
  \<^verbatim>\<open>AttributeError\<close> and no configuration is returned.
\<close>

theorem case_list_of_other_type_counterexample:
  "filter_cmd_config (mask_values [''pulse_password''] ''***'')
     [(''OVERWRITE_HASAL_SUITE_CASE_LIST'', VInt 5)] = Inl AttributeError"
  by (simp add: filter_cmd_config_def)

text \<open>
  C9, amended: for every input configuration (a dict: its keys are distinct) whose value
  under \<^verbatim>\<open>OVERWRITE_HASAL_SUITE_CASE_LIST\<close> is a list or a string,
  \<^verbatim>\<open>filter_cmd_config\<close> returns a configuration that holds a list under that key: a
  list is kept as it is, a string is split at its commas. The masking function is the
  one the environment has; it is taken to return the value under this key as it is.
\<close>

theorem case_list_is_normalised:
  assumes "distinct (map fst input_config)"
    and "\<forall>c. map_of (masking c) ''OVERWRITE_HASAL_SUITE_CASE_LIST'' =
               map_of c ''OVERWRITE_HASAL_SUITE_CASE_LIST''"
  shows "(map_of input_config ''OVERWRITE_HASAL_SUITE_CASE_LIST'' = Some (VList vs) \<longrightarrow>
            (\<exists>ret_config. filter_cmd_config masking input_config = Inr ret_config \<and>
               map_of ret_config ''OVERWRITE_HASAL_SUITE_CASE_LIST'' = Some (VList vs)))
       \<and> (map_of input_config ''OVERWRITE_HASAL_SUITE_CASE_LIST'' = Some (VStr s) \<longrightarrow>
            (\<exists>ret_config. filter_cmd_config masking input_config = Inr ret_config \<and>
               map_of ret_config ''OVERWRITE_HASAL_SUITE_CASE_LIST'' =
                 Some (VList (map VStr (split_chr CHR '','' s)))))"
proof (intro conjI impI)
  assume m: "map_of input_config ''OVERWRITE_HASAL_SUITE_CASE_LIST'' = Some (VList vs)"
  from filter_loop_case_list [OF assms(2) assms(1) m, of vs s input_config]
  show "\<exists>ret_config. filter_cmd_config masking input_config = Inr ret_config \<and>
               map_of ret_config ''OVERWRITE_HASAL_SUITE_CASE_LIST'' = Some (VList vs)"
    by (simp add: filter_cmd_config_def)
next
  assume m: "map_of input_config ''OVERWRITE_HASAL_SUITE_CASE_LIST'' = Some (VStr s)"
  from filter_loop_case_list [OF assms(2) assms(1) m, of vs s input_config]
  show "\<exists>ret_config. filter_cmd_config masking input_config = Inr ret_config \<and>
               map_of ret_config ''OVERWRITE_HASAL_SUITE_CASE_LIST'' =
                 Some (VList (map VStr (split_chr CHR '','' s)))"
    by (simp add: filter_cmd_config_def)
qed

theorem case_list_is_normalised_witness:
  "filter_cmd_config (mask_values [''pulse_password''] ''***'')
      [(''pulse_password'', VStr ''hunter2''),
       (''OVERWRITE_HASAL_SUITE_CASE_LIST'', VStr ''test_a,test_b'')]
     = Inr [(''pulse_password'', VStr ''***''),
            (''OVERWRITE_HASAL_SUITE_CASE_LIST'', VList [VStr ''test_a'', VStr ''test_b''])]
   \<and> (\<exists>ret_config.
         filter_cmd_config (mask_values [''pulse_password''] ''***'')
           [(''pulse_password'', VStr ''hunter2''),
            (''OVERWRITE_HASAL_SUITE_CASE_LIST'', VList [VStr ''test_a''])] = Inr ret_config
       \<and> map_of ret_config ''OVERWRITE_HASAL_SUITE_CASE_LIST'' = Some (VList [VStr ''test_a'']))
   \<and> (\<exists>ret_config.
         filter_cmd_config (mask_values [''pulse_password''] ''***'')
           [(''pulse_password'', VStr ''hunter2''),
            (''OVERWRITE_HASAL_SUITE_CASE_LIST'', VStr ''test_a,test_b'')] = Inr ret_config
       \<and> map_of ret_config ''OVERWRITE_HASAL_SUITE_CASE_LIST'' =
           Some (VList [VStr ''test_a'', VStr ''test_b'']))"
proof -
  have d1: "distinct (map fst [(''pulse_password'', VStr ''hunter2''),
            (''OVERWRITE_HASAL_SUITE_CASE_LIST'', VList [VStr ''test_a''])])" by simp
  have d2: "distinct (map fst [(''pulse_password'', VStr ''hunter2''),
            (''OVERWRITE_HASAL_SUITE_CASE_LIST'', VStr ''test_a,test_b'')])" by simp
  have 0: "filter_cmd_config (mask_values [''pulse_password''] ''***'')
      [(''pulse_password'', VStr ''hunter2''),
       (''OVERWRITE_HASAL_SUITE_CASE_LIST'', VStr ''test_a,test_b'')]
     = Inr [(''pulse_password'', VStr ''***''),
            (''OVERWRITE_HASAL_SUITE_CASE_LIST'', VList [VStr ''test_a'', VStr ''test_b''])]"
    by (simp add: filter_cmd_config_def mask_values_def)
  from case_list_is_normalised [OF d1 mask_values_keeps_case_list, of "[VStr ''test_a'']" "[]"]
  have 1: "\<exists>ret_config.
         filter_cmd_config (mask_values [''pulse_password''] ''***'')
           [(''pulse_password'', VStr ''hunter2''),
            (''OVERWRITE_HASAL_SUITE_CASE_LIST'', VList [VStr ''test_a''])] = Inr ret_config
       \<and> map_of ret_config ''OVERWRITE_HASAL_SUITE_CASE_LIST'' = Some (VList [VStr ''test_a''])"
    by simp
  from case_list_is_normalised [OF d2 mask_values_keeps_case_list, of "[]" "''test_a,test_b''"]
  have 2: "\<exists>ret_config.
         filter_cmd_config (mask_values [''pulse_password''] ''***'')
           [(''pulse_password'', VStr ''hunter2''),
            (''OVERWRITE_HASAL_SUITE_CASE_LIST'', VStr ''test_a,test_b'')] = Inr ret_config
       \<and> map_of ret_config ''OVERWRITE_HASAL_SUITE_CASE_LIST'' =
           Some (VList [VStr ''test_a'', VStr ''test_b''])"
    by simp
  show ?thesis using 0 1 2 by blast
qed

subsection \<open>The fetch of the hash reads the archive and appends log lines\<close>

lemmas md5_fetch_unfold = get_latest_info_json_md5_hash_def get_latest_info_json_url_for_md5_def
  get_all_latest_files_for_md5_def logging_def emit_def Let_def

lemma md5_hash_result_independent:
  "fst (get_latest_info_json_md5_hash e p w) = fst (get_latest_info_json_md5_hash e p w')"
  by (auto simp: md5_fetch_unfold split: sum.splits option.splits prod.splits)

lemma md5_hash_keeps_fs: "fs (snd (get_latest_info_json_md5_hash e p w)) = fs w"
  by (auto simp: md5_fetch_unfold split: sum.splits option.splits prod.splits)

lemma md5_hash_appends:
  "events (snd (get_latest_info_json_md5_hash e p w)) =
     events w @ drop (length (events w)) (events (snd (get_latest_info_json_md5_hash e p w)))"
  by (auto simp: md5_fetch_unfold split: sum.splits option.splits prod.splits)

lemma md5_hash_logs:
  "list_all is_log (drop (length (events w)) (events (snd (get_latest_info_json_md5_hash e p w))))"
  by (auto simp: md5_fetch_unfold split: sum.splits option.splits prod.splits)

lemma sorted_le_last: "sorted ys \<Longrightarrow> y \<in> set ys \<Longrightarrow> y \<le> last ys"
proof (induction ys)
  case Nil
  then show ?case by simp
next
  case (Cons a ys)
  show ?case
  proof (cases "ys = []")
    case True
    with Cons.prems show ?thesis by simp
  next
    case False
    then have l: "last ys \<in> set ys" by (rule last_in_set)
    from Cons.prems have s: "sorted ys" and a: "\<forall>x\<in>set ys. a \<le> x" by simp_all
    from Cons.prems(2) have "y = a \<or> y \<in> set ys" by simp
    then show ?thesis
    proof
      assume "y = a"
      with a l False show ?thesis by simp
    next
      assume "y \<in> set ys"
      with Cons.IH [OF s] False show ?thesis by simp
    qed
  qed
qed

lemma last_sort_is_Max: "xs \<noteq> [] \<Longrightarrow> last (sort xs) = Max (set xs)"
proof -
  assume ne: "xs \<noteq> []"
  then have s: "sort xs \<noteq> []" by (metis length_0_conv length_sort)
  have "Max (set (sort xs)) = last (sort xs)"
  proof (rule Max_eqI)
    show "finite (set (sort xs))" by simp
    show "\<And>y. y \<in> set (sort xs) \<Longrightarrow> y \<le> last (sort xs)"
      using sorted_le_last [of "sort xs"] by simp
    show "last (sort xs) \<in> set (sort xs)" using s by (rule last_in_set)
  qed
  then show ?thesis by simp
qed

lemma check_folder_result:
  "fst (check_folder e d w) \<Longrightarrow>
     folder_files (fs (snd (check_folder e d w)) d) = folder_files (fs w d)
     \<and> (\<forall>d'. d' \<noteq> d \<longrightarrow> fs (snd (check_folder e d w)) d' = fs w d')"
  by (auto simp: check_folder_def logging_def emit_def split: node.splits if_splits)

lemma example_listing:
  "collect_links (readlines listing_body) [] =
     [(''firefox-56.0a1.en-US.win64.json'',
       ''/pub/firefox/nightly/latest-mozilla-central/firefox-56.0a1.en-US.win64.json'')]"
  by (simp add: listing_body_def newline_def dquote_def startswith_def)

lemma example_url:
  "get_latest_info_json_url_for_md5 (example_env file_body) ''win64'' w =
     (Some ''https://archive.mozilla.org/pub/firefox/nightly/latest-mozilla-central/firefox-56.0a1.en-US.win64.json'', w)"
  by (simp add: get_latest_info_json_url_for_md5_def get_all_latest_files_for_md5_def urlopen_def
        example_env_def example_listing ARCHIVE_ROOT_URL_def ARCHIVE_LATEST_FOLDER_def endswith_def)

lemma read_loop_empty: "read_loop [] counter max_size fed = fed"
  by (simp add: read_loop.simps)

lemma read_loop_short:
  "remote_resource \<noteq> [] \<Longrightarrow> length remote_resource \<le> 1024 \<Longrightarrow> 2048 < max_size \<Longrightarrow>
     read_loop remote_resource 0 max_size [] = remote_resource"
  by (subst read_loop.simps) (simp add: read_loop_empty)

lemma example_md5_empty:
  "get_latest_info_json_md5_hash (example_env []) ''win64'' w =
     (Inr ''d41d8cd98f00b204e9800998ecf8427e'', w)"
  by (simp add: get_latest_info_json_md5_hash_def example_url get_remote_md5_def urlopen_def
       read_loop_empty)
     (simp add: example_env_def ARCHIVE_ROOT_URL_def ARCHIVE_LATEST_FOLDER_def read_loop_empty)

lemma example_md5_build:
  "get_latest_info_json_md5_hash (example_env ''buildid=20200202'') ''win64'' w =
     (Inr ''9e107d9d372bb6826bd81d3542a419d6'', w)"
  by (simp add: get_latest_info_json_md5_hash_def example_url get_remote_md5_def urlopen_def)
     (simp add: example_env_def ARCHIVE_ROOT_URL_def ARCHIVE_LATEST_FOLDER_def read_loop_short)

lemma example_latest: "Max (set (map fst example_table)) = ''2020-02-02T02:00:00''"
proof -
  have "example_table \<noteq> []" by (simp add: example_table_def)
  then have "Max (set (map fst example_table)) = last (sort (map fst example_table))"
    using last_sort_is_Max [of "map fst example_table"] by simp
  then show ?thesis by (simp add: example_table_def)
qed

lemma example_latest_image: "Max (fst ` set example_table) = ''2020-02-02T02:00:00''"
  using example_latest by simp

subsection \<open>The first check of a job\<close>






subsection \<open>A check that finds the stored signature\<close>

lemma stored_record_folder:
  "folder_files nd j = Some text \<Longrightarrow> \<exists>files. nd = Folder files"
  by (cases nd) simp_all

lemma check_folder_of_folder: "fs w d = Folder files \<Longrightarrow> check_folder e d w = (True, w)"
  by (simp add: check_folder_def)

lemma md5_check_unchanged:
  assumes stored: "folder_files (fs w MD5_HASH_FOLDER) job_name = Some text"
    and h: "fst (get_latest_info_json_md5_hash e platform w) = Inr new_hash"
    and eq: "readline text = new_hash"
  shows "check_latest_info_json_md5_changed e job_name platform w =
           (Inr False, snd (get_latest_info_json_md5_hash e platform w))"
proof -
  from stored_record_folder [OF stored] obtain files where "fs w MD5_HASH_FOLDER = Folder files"
    by blast
  then have c: "check_folder e MD5_HASH_FOLDER w = (True, w)" by (rule check_folder_of_folder)
  show ?thesis
    using h eq stored
    by (simp add: check_latest_info_json_md5_changed_def c case_prod_beta Let_def md5_hash_keeps_fs)
qed

lemma timestamp_check_unchanged:
  assumes stored: "folder_files (fs w TIMESTAMP_FOLDER) job_name = Some text"
    and t: "get_history_archive_perfherder_relational_table e platform = Some table"
    and ne: "table \<noteq> []"
    and eq: "readline text = Max (set (map fst table))"
  shows "check_latest_timestamp e job_name platform w = ((False, None), w)"
proof -
  from stored_record_folder [OF stored] obtain files where "fs w TIMESTAMP_FOLDER = Folder files"
    by blast
  then have c: "check_folder e TIMESTAMP_FOLDER w = (True, w)" by (rule check_folder_of_folder)
  have m: "last (sort (map fst table)) = Max (set (map fst table))"
    using ne by (simp add: last_sort_is_Max)
  show ?thesis
    using t ne eq stored
    by (simp add: check_latest_timestamp_def c Let_def m)
qed

lemma job_unchanged:
  assumes "check_latest_timestamp e j p w = ((False, None), w)"
  shows "job_pushing_meta_task e u pw cc j t k p cmd cfg w =
     (Inr (), w\<lparr>events := events w @
        [Log INFO ''checking Job [{}], Platform [{}]...'' [AStr j, AStr p],
         Log INFO ''checking Job [{}], Platform [{}]... {}'' [AStr j, AStr p, ABool False]]\<rparr>)"
proof -
  have "check_latest_timestamp e j p
          (w\<lparr>events := events w @ [Log INFO ''checking Job [{}], Platform [{}]...'' [AStr j, AStr p]]\<rparr>)
        = ((False, None),
           w\<lparr>events := events w @ [Log INFO ''checking Job [{}], Platform [{}]...'' [AStr j, AStr p]]\<rparr>)"
    using check_latest_timestamp_events [where e=e and j=j and p=p and w=w
        and evs="events w @ [Log INFO ''checking Job [{}], Platform [{}]...'' [AStr j, AStr p]]"] assms
    by simp
  then show ?thesis
    by (simp add: job_pushing_meta_task_def logging_eq Let_def)
qed

text \<open>
  C3: when the signature a check reads from the record of the job (the first line of
  the file, which is all of a file that the check wrote) equals the signature it
  fetches, the check returns changed = \<^verbatim>\<open>False\<close> and the file system is left as it was,
  and the dispatch job pushes no message and writes no status record. This holds for
  \<^verbatim>\<open>check_latest_info_json_md5_changed\<close> with \<^verbatim>\<open>job_pushing_meta_task_md5\<close> and for
  \<^verbatim>\<open>check_latest_timestamp\<close> with \<^verbatim>\<open>job_pushing_meta_task\<close>.
\<close>

theorem unchanged_signature_no_dispatch:
  "(folder_files (fs w MD5_HASH_FOLDER) job_name = Some text
      \<and> fst (get_latest_info_json_md5_hash e platform_build w) = Inr new_hash
      \<and> readline text = new_hash
    \<longrightarrow> fst (check_latest_info_json_md5_changed e job_name platform_build w) = Inr False
      \<and> fs (snd (check_latest_info_json_md5_changed e job_name platform_build w)) = fs w
      \<and> fst (job_pushing_meta_task_md5 e username password command_config job_name topic amount
               platform_build cmd_name overwrite_cmd_config w) = Inr ()
      \<and> fs (snd (job_pushing_meta_task_md5 e username password command_config job_name topic amount
               platform_build cmd_name overwrite_cmd_config w)) = fs w
      \<and> pushed (snd (job_pushing_meta_task_md5 e username password command_config job_name topic
               amount platform_build cmd_name overwrite_cmd_config w)) = pushed w
      \<and> status_records (snd (job_pushing_meta_task_md5 e username password command_config job_name
               topic amount platform_build cmd_name overwrite_cmd_config w)) = status_records w)
   \<and> (folder_files (fs w TIMESTAMP_FOLDER) job_name = Some text
      \<and> get_history_archive_perfherder_relational_table e platform_build = Some table
      \<and> table \<noteq> []
      \<and> readline text = Max (set (map fst table))
    \<longrightarrow> fst (check_latest_timestamp e job_name platform_build w) = (False, None)
      \<and> fs (snd (check_latest_timestamp e job_name platform_build w)) = fs w
      \<and> fst (job_pushing_meta_task e username password command_config job_name topic amount
               platform_build cmd_name overwrite_cmd_config w) = Inr ()
      \<and> fs (snd (job_pushing_meta_task e username password command_config job_name topic amount
               platform_build cmd_name overwrite_cmd_config w)) = fs w
      \<and> pushed (snd (job_pushing_meta_task e username password command_config job_name topic
               amount platform_build cmd_name overwrite_cmd_config w)) = pushed w
      \<and> status_records (snd (job_pushing_meta_task e username password command_config job_name
               topic amount platform_build cmd_name overwrite_cmd_config w)) = status_records w)"
proof (intro conjI impI)
  assume a: "folder_files (fs w MD5_HASH_FOLDER) job_name = Some text
      \<and> fst (get_latest_info_json_md5_hash e platform_build w) = Inr new_hash
      \<and> readline text = new_hash"
  then have c: "check_latest_info_json_md5_changed e job_name platform_build w =
           (Inr False, snd (get_latest_info_json_md5_hash e platform_build w))"
    using md5_check_unchanged by blast
  have j: "job_pushing_meta_task_md5 e username password command_config job_name topic amount
               platform_build cmd_name overwrite_cmd_config w
           = (Inr (), snd (get_latest_info_json_md5_hash e platform_build w))"
    by (simp add: job_pushing_meta_task_md5_def c)
  have ev: "events (snd (get_latest_info_json_md5_hash e platform_build w)) =
     events w @ drop (length (events w)) (events (snd (get_latest_info_json_md5_hash e platform_build w)))"
    by (rule md5_hash_appends)
  have lg: "list_all is_log
     (drop (length (events w)) (events (snd (get_latest_info_json_md5_hash e platform_build w))))"
    by (rule md5_hash_logs)
  have p: "pushed (snd (get_latest_info_json_md5_hash e platform_build w)) = pushed w"
    unfolding pushed_def by (subst ev) (simp add: logs_no_push [OF lg])
  have s: "status_records (snd (get_latest_info_json_md5_hash e platform_build w)) = status_records w"
    unfolding status_records_def by (subst ev) (simp add: logs_no_status [OF lg])
  show "fst (check_latest_info_json_md5_changed e job_name platform_build w) = Inr False"
    by (simp add: c)
  show "fs (snd (check_latest_info_json_md5_changed e job_name platform_build w)) = fs w"
    by (simp add: c md5_hash_keeps_fs)
  show "fst (job_pushing_meta_task_md5 e username password command_config job_name topic amount
               platform_build cmd_name overwrite_cmd_config w) = Inr ()"
    by (simp add: j)
  show "fs (snd (job_pushing_meta_task_md5 e username password command_config job_name topic amount
               platform_build cmd_name overwrite_cmd_config w)) = fs w"
    by (simp add: j md5_hash_keeps_fs)
  show "pushed (snd (job_pushing_meta_task_md5 e username password command_config job_name topic
               amount platform_build cmd_name overwrite_cmd_config w)) = pushed w"
    by (simp add: j p)
  show "status_records (snd (job_pushing_meta_task_md5 e username password command_config job_name
               topic amount platform_build cmd_name overwrite_cmd_config w)) = status_records w"
    by (simp add: j s)
next
  assume a: "folder_files (fs w TIMESTAMP_FOLDER) job_name = Some text
      \<and> get_history_archive_perfherder_relational_table e platform_build = Some table
      \<and> table \<noteq> []
      \<and> readline text = Max (set (map fst table))"
  then have c: "check_latest_timestamp e job_name platform_build w = ((False, None), w)"
    using timestamp_check_unchanged by blast
  note j = job_unchanged [OF c, of username password command_config topic amount cmd_name
             overwrite_cmd_config]
  show "fst (check_latest_timestamp e job_name platform_build w) = (False, None)"
    by (simp add: c)
  show "fs (snd (check_latest_timestamp e job_name platform_build w)) = fs w"
    by (simp add: c)
  show "fst (job_pushing_meta_task e username password command_config job_name topic amount
               platform_build cmd_name overwrite_cmd_config w) = Inr ()"
    by (simp add: j)
  show "fs (snd (job_pushing_meta_task e username password command_config job_name topic amount
               platform_build cmd_name overwrite_cmd_config w)) = fs w"
    by (simp add: j)
  show "pushed (snd (job_pushing_meta_task e username password command_config job_name topic
               amount platform_build cmd_name overwrite_cmd_config w)) = pushed w"
    by (simp add: j pushed_def)
  show "status_records (snd (job_pushing_meta_task e username password command_config job_name
               topic amount platform_build cmd_name overwrite_cmd_config w)) = status_records w"
    by (simp add: j status_records_def)
qed

theorem unchanged_signature_no_dispatch_witness:
  "fst (check_latest_info_json_md5_changed (example_env ''buildid=20200202'') ''A'' ''win64''
          (stored_world [''A'' \<mapsto> ''9e107d9d372bb6826bd81d3542a419d6'']
                        [''A'' \<mapsto> ''2020-02-02T02:00:00''])) = Inr False
   \<and> fs (snd (check_latest_info_json_md5_changed (example_env ''buildid=20200202'') ''A'' ''win64''
          (stored_world [''A'' \<mapsto> ''9e107d9d372bb6826bd81d3542a419d6'']
                        [''A'' \<mapsto> ''2020-02-02T02:00:00''])))
       = fs (stored_world [''A'' \<mapsto> ''9e107d9d372bb6826bd81d3542a419d6'']
                          [''A'' \<mapsto> ''2020-02-02T02:00:00''])
   \<and> pushed (snd (job_pushing_meta_task_md5 (example_env ''buildid=20200202'') ''user'' ''secret''
                    [] ''A'' ''win7'' 2 ''win64'' ''download-latest-nightly'' []
          (stored_world [''A'' \<mapsto> ''9e107d9d372bb6826bd81d3542a419d6'']
                        [''A'' \<mapsto> ''2020-02-02T02:00:00'']))) = []
   \<and> fst (check_latest_timestamp (example_env ''buildid=20200202'') ''A'' ''win64''
          (stored_world [''A'' \<mapsto> ''9e107d9d372bb6826bd81d3542a419d6'']
                        [''A'' \<mapsto> ''2020-02-02T02:00:00''])) = (False, None)
   \<and> fs (snd (job_pushing_meta_task (example_env ''buildid=20200202'') ''user'' ''secret''
                    [] ''A'' ''win7'' 2 ''win64'' ''download-latest-nightly'' []
          (stored_world [''A'' \<mapsto> ''9e107d9d372bb6826bd81d3542a419d6'']
                        [''A'' \<mapsto> ''2020-02-02T02:00:00''])))
       = fs (stored_world [''A'' \<mapsto> ''9e107d9d372bb6826bd81d3542a419d6'']
                          [''A'' \<mapsto> ''2020-02-02T02:00:00''])
   \<and> pushed (snd (job_pushing_meta_task (example_env ''buildid=20200202'') ''user'' ''secret''
                    [] ''A'' ''win7'' 2 ''win64'' ''download-latest-nightly'' []
          (stored_world [''A'' \<mapsto> ''9e107d9d372bb6826bd81d3542a419d6'']
                        [''A'' \<mapsto> ''2020-02-02T02:00:00'']))) = []
   \<and> status_records (snd (job_pushing_meta_task (example_env ''buildid=20200202'') ''user''
                    ''secret'' [] ''A'' ''win7'' 2 ''win64'' ''download-latest-nightly'' []
          (stored_world [''A'' \<mapsto> ''9e107d9d372bb6826bd81d3542a419d6'']
                        [''A'' \<mapsto> ''2020-02-02T02:00:00'']))) = []"
proof -
  let ?w = "stored_world [''A'' \<mapsto> ''9e107d9d372bb6826bd81d3542a419d6'']
                         [''A'' \<mapsto> ''2020-02-02T02:00:00'']"
  let ?e = "example_env ''buildid=20200202''"
  have s1: "folder_files (fs ?w MD5_HASH_FOLDER) ''A'' = Some ''9e107d9d372bb6826bd81d3542a419d6''"
    and s2: "folder_files (fs ?w TIMESTAMP_FOLDER) ''A'' = Some ''2020-02-02T02:00:00''"
    by (simp_all add: stored_world_def)
  have h: "fst (get_latest_info_json_md5_hash ?e ''win64'' ?w) = Inr ''9e107d9d372bb6826bd81d3542a419d6''"
    by (simp add: example_md5_build)
  have r1: "readline ''9e107d9d372bb6826bd81d3542a419d6'' = ''9e107d9d372bb6826bd81d3542a419d6''"
    and r2: "readline ''2020-02-02T02:00:00'' = ''2020-02-02T02:00:00''"
    by (simp_all add: newline_def)
  have t: "get_history_archive_perfherder_relational_table ?e ''win64'' = Some example_table"
    by (simp add: example_env_def)
  have ne: "example_table \<noteq> []" by (simp add: example_table_def)
  have p: "pushed ?w = []" "status_records ?w = []"
    by (simp_all add: pushed_def status_records_def stored_world_def)
  from unchanged_signature_no_dispatch [of ?w "''A''" "''9e107d9d372bb6826bd81d3542a419d6''" ?e
         "''win64''" "''9e107d9d372bb6826bd81d3542a419d6''" "''user''" "''secret''" "[]"
         "''win7''" 2 "''download-latest-nightly''" "[]"]
       unchanged_signature_no_dispatch [of ?w "''A''" "''2020-02-02T02:00:00''" ?e
         "''win64''" "''9e107d9d372bb6826bd81d3542a419d6''" "''user''" "''secret''" "[]"
         "''win7''" 2 "''download-latest-nightly''" "[]" example_table]
  show ?thesis using s1 s2 h r1 r2 t ne p by (simp add: example_latest_image)
qed

subsection \<open>A feed that cannot be fetched\<close>

lemma check_folder_appends:
  "events (snd (check_folder e d w)) =
     events w @ drop (length (events w)) (events (snd (check_folder e d w)))"
  by (auto simp: check_folder_def logging_def emit_def split: node.splits)

lemma check_folder_logs:
  "list_all is_log (drop (length (events w)) (events (snd (check_folder e d w))))"
  by (auto simp: check_folder_def logging_def emit_def split: node.splits)

lemma no_push_after:
  assumes "events w' = events w @ drop (length (events w)) (events w')"
    and "list_all is_log (drop (length (events w)) (events w'))"
  shows "pushed w' = pushed w \<and> status_records w' = status_records w"
proof -
  have "filter is_push (events w') = filter is_push (events w)"
    by (subst assms(1)) (simp add: logs_no_push [OF assms(2)])
  moreover have "filter is_status (events w') = filter is_status (events w)"
    by (subst assms(1)) (simp add: logs_no_status [OF assms(2)])
  ultimately show ?thesis by (simp add: pushed_def status_records_def)
qed

lemma feed_failure_no_url:
  assumes "(\<exists>err. urlopen_net e (urljoin e ARCHIVE_ROOT_URL ARCHIVE_LATEST_FOLDER) = Inl err)
         \<or> (\<exists>res. urlopen_net e (urljoin e ARCHIVE_ROOT_URL ARCHIVE_LATEST_FOLDER) = Inr res
                  \<and> getcode res \<noteq> 200)
         \<or> (\<exists>res. urlopen_net e (urljoin e ARCHIVE_ROOT_URL ARCHIVE_LATEST_FOLDER) = Inr res
                  \<and> filter (\<lambda>(k, v). endswith k (''.'' @ platform @ ''.'' @ ''json''))
                       (collect_links (readlines (body res)) []) = [])"
  shows "fst (get_latest_info_json_url_for_md5 e platform w) = None"
  using assms
  by (auto simp: get_latest_info_json_url_for_md5_def get_all_latest_files_for_md5_def urlopen_def
        Let_def split: sum.splits prod.splits)

lemma md5_hash_without_url:
  "fst (get_latest_info_json_url_for_md5 e platform w) = None \<Longrightarrow>
   fst (get_latest_info_json_md5_hash e platform w) = Inl AttributeError"
  by (simp add: get_latest_info_json_md5_hash_def get_remote_md5_def urlopen_def case_prod_beta)

lemma md5_check_raises:
  assumes ok: "fst (check_folder e MD5_HASH_FOLDER w)"
    and h: "fst (get_latest_info_json_md5_hash e platform w) = Inl err"
  shows "check_latest_info_json_md5_changed e job_name platform w =
           (Inl err, snd (get_latest_info_json_md5_hash e platform
                            (snd (check_folder e MD5_HASH_FOLDER w))))"
proof -
  have f: "fst (get_latest_info_json_md5_hash e platform (snd (check_folder e MD5_HASH_FOLDER w)))
           = Inl err"
    using h md5_hash_result_independent [of e platform "snd (check_folder e MD5_HASH_FOLDER w)" w]
    by simp
  show ?thesis
    using ok f by (simp add: check_latest_info_json_md5_changed_def case_prod_beta Let_def)
qed

text \<open>
  The timestamp mode fails closed: a table that is \<^verbatim>\<open>None\<close> or empty is answered
  with \<^verbatim>\<open>(False, None)\<close>, nothing is written, and the job returns without a message
  or a status record.
\<close>

lemma timestamp_check_fails_closed:
  assumes "get_history_archive_perfherder_relational_table e platform_build = None
         \<or> get_history_archive_perfherder_relational_table e platform_build = Some []"
  shows "fst (check_latest_timestamp e job_name platform_build w) = (False, None)
       \<and> fs (snd (check_latest_timestamp e job_name platform_build w)) = fs w
       \<and> fst (job_pushing_meta_task e username password command_config job_name topic amount
                 platform_build cmd_name overwrite_cmd_config w) = Inr ()
       \<and> fs (snd (job_pushing_meta_task e username password command_config job_name topic amount
                 platform_build cmd_name overwrite_cmd_config w)) = fs w
       \<and> pushed (snd (job_pushing_meta_task e username password command_config job_name topic
                 amount platform_build cmd_name overwrite_cmd_config w)) = pushed w
       \<and> status_records (snd (job_pushing_meta_task e username password command_config job_name
                 topic amount platform_build cmd_name overwrite_cmd_config w)) = status_records w"
  using assms
  by (auto simp: check_latest_timestamp_def job_pushing_meta_task_def logging_def emit_def Let_def
        pushed_def status_records_def)

text \<open>
  C5 says that a failed fetch makes the check return not-changed without an exception,
  in the hash mode too. The code does otherwise there: when the listing cannot be read
  (the request fails, or its status is not 200) or holds no file name for the platform,
  \<^verbatim>\<open>get_latest_info_json_url_for_md5\<close> returns \<^verbatim>\<open>None\<close>, which
  \<^verbatim>\<open>get_latest_info_json_md5_hash\<close> hands to \<^verbatim>\<open>urllib2.urlopen\<close>; the \<^verbatim>\<open>AttributeError\<close>
  leaves \<^verbatim>\<open>check_latest_info_json_md5_changed\<close> and then
  \<^verbatim>\<open>job_pushing_meta_task_md5\<close>. The stored signatures stay as they were and nothing
  is pushed.
\<close>

theorem md5_check_raises_on_feed_failure:
  assumes "fst (check_folder e MD5_HASH_FOLDER w)"
    and "(\<exists>err. urlopen_net e (urljoin e ARCHIVE_ROOT_URL ARCHIVE_LATEST_FOLDER) = Inl err)
         \<or> (\<exists>res. urlopen_net e (urljoin e ARCHIVE_ROOT_URL ARCHIVE_LATEST_FOLDER) = Inr res
                  \<and> getcode res \<noteq> 200)
         \<or> (\<exists>res. urlopen_net e (urljoin e ARCHIVE_ROOT_URL ARCHIVE_LATEST_FOLDER) = Inr res
                  \<and> filter (\<lambda>(k, v). endswith k (''.'' @ platform_build @ ''.'' @ ''json''))
                       (collect_links (readlines (body res)) []) = [])"
  shows "fst (check_latest_info_json_md5_changed e job_name platform_build w) = Inl AttributeError
       \<and> fst (job_pushing_meta_task_md5 e username password command_config job_name topic amount
                 platform_build cmd_name overwrite_cmd_config w) = Inl AttributeError
       \<and> folder_files (fs (snd (job_pushing_meta_task_md5 e username password command_config
                 job_name topic amount platform_build cmd_name overwrite_cmd_config w))
             MD5_HASH_FOLDER) = folder_files (fs w MD5_HASH_FOLDER)
       \<and> pushed (snd (job_pushing_meta_task_md5 e username password command_config job_name topic
                 amount platform_build cmd_name overwrite_cmd_config w)) = pushed w"
proof -
  define w1 where "w1 = snd (check_folder e MD5_HASH_FOLDER w)"
  define w2 where "w2 = snd (get_latest_info_json_md5_hash e platform_build w1)"
  have "fst (get_latest_info_json_url_for_md5 e platform_build w) = None"
    using assms(2) by (rule feed_failure_no_url)
  then have h: "fst (get_latest_info_json_md5_hash e platform_build w) = Inl AttributeError"
    by (rule md5_hash_without_url)
  have c: "check_latest_info_json_md5_changed e job_name platform_build w = (Inl AttributeError, w2)"
    using md5_check_raises [OF assms(1) h] by (simp add: w2_def w1_def)
  have j: "job_pushing_meta_task_md5 e username password command_config job_name topic amount
                 platform_build cmd_name overwrite_cmd_config w = (Inl AttributeError, w2)"
    by (simp add: job_pushing_meta_task_md5_def c)
  have f: "folder_files (fs w2 MD5_HASH_FOLDER) = folder_files (fs w MD5_HASH_FOLDER)"
    using check_folder_result [OF assms(1)] by (simp add: w2_def w1_def md5_hash_keeps_fs)
  have p1: "pushed w1 = pushed w"
    using no_push_after [of w1 w] check_folder_appends [of e MD5_HASH_FOLDER w]
      check_folder_logs [of w e MD5_HASH_FOLDER] by (simp add: w1_def)
  have p2: "pushed w2 = pushed w1"
    using no_push_after [of w2 w1] md5_hash_appends [of e platform_build w1]
      md5_hash_logs [of w1 e platform_build] by (simp add: w2_def)
  show ?thesis using c j f p1 p2 by simp
qed

theorem md5_check_raises_on_feed_failure_witness:
  "fst (check_latest_info_json_md5_changed
          ((example_env [])\<lparr>urlopen_net := \<lambda>u. Inl URLError\<rparr>) ''A'' ''win64''
          (stored_world [''A'' \<mapsto> ''9e107d9d372bb6826bd81d3542a419d6''] Map.empty))
     = Inl AttributeError
   \<and> fst (job_pushing_meta_task_md5
            ((example_env [])\<lparr>urlopen_net := \<lambda>u. Inl URLError\<rparr>) ''user'' ''secret'' [] ''A''
            ''win7'' 1 ''win64'' ''download-latest-nightly'' []
            (stored_world [''A'' \<mapsto> ''9e107d9d372bb6826bd81d3542a419d6''] Map.empty))
     = Inl AttributeError"
proof -
  let ?e = "(example_env [])\<lparr>urlopen_net := \<lambda>u. Inl URLError\<rparr>"
  let ?w = "stored_world [''A'' \<mapsto> ''9e107d9d372bb6826bd81d3542a419d6''] Map.empty"
  have ok: "fst (check_folder ?e MD5_HASH_FOLDER ?w)"
    by (simp add: check_folder_def stored_world_def)
  have fail: "(\<exists>err. urlopen_net ?e (urljoin ?e ARCHIVE_ROOT_URL ARCHIVE_LATEST_FOLDER) = Inl err)
         \<or> (\<exists>res. urlopen_net ?e (urljoin ?e ARCHIVE_ROOT_URL ARCHIVE_LATEST_FOLDER) = Inr res
                  \<and> getcode res \<noteq> 200)
         \<or> (\<exists>res. urlopen_net ?e (urljoin ?e ARCHIVE_ROOT_URL ARCHIVE_LATEST_FOLDER) = Inr res
                  \<and> filter (\<lambda>(k, v). endswith k (''.'' @ ''win64'' @ ''.'' @ ''json''))
                       (collect_links (readlines (body res)) []) = [])"
    by simp
  from md5_check_raises_on_feed_failure [OF ok fail, of "''A''" "''user''" "''secret''" "[]"
         "''win7''" 1 "''download-latest-nightly''" "[]"]
  show ?thesis by simp
qed

subsection \<open>A build file with no content\<close>

text \<open>
  C6 says that a fetch that yields empty content never replaces a stored signature. The
  code does otherwise in the hash mode: for a build file with an empty body the loop of
  \<^verbatim>\<open>get_remote_md5\<close> feeds nothing to the handler, the digest of the empty input is the
  new hash, and when the stored signature differs from it the check returns \<^verbatim>\<open>True\<close> and
  writes that digest over the stored signature.
\<close>

theorem empty_fetch_overwrites_signature:
  assumes "folder_files (fs w MD5_HASH_FOLDER) job_name = Some text"
    and "fst (get_latest_info_json_url_for_md5 e platform w) = Some url"
    and "urlopen_net e url = Inr res"
    and "body res = []"
    and "readline text \<noteq> md5_hexdigest e []"
  shows "fst (check_latest_info_json_md5_changed e job_name platform w) = Inr True
       \<and> folder_files (fs (snd (check_latest_info_json_md5_changed e job_name platform w))
            MD5_HASH_FOLDER) job_name = Some (md5_hexdigest e [])"
proof -
  from stored_record_folder [OF assms(1)] obtain files where "fs w MD5_HASH_FOLDER = Folder files"
    by blast
  then have c: "check_folder e MD5_HASH_FOLDER w = (True, w)" by (rule check_folder_of_folder)
  have h: "fst (get_latest_info_json_md5_hash e platform w) = Inr (md5_hexdigest e [])"
    using assms(2,3,4)
    by (simp add: get_latest_info_json_md5_hash_def get_remote_md5_def urlopen_def case_prod_beta
          read_loop_empty)
  show ?thesis
    using h assms(1,5)
    by (simp add: check_latest_info_json_md5_changed_def c case_prod_beta Let_def md5_hash_keeps_fs
          write_file_def fs_logging)
qed

theorem empty_fetch_overwrites_signature_witness:
  "fst (check_latest_info_json_md5_changed (example_env []) ''A'' ''win64''
          (stored_world [''A'' \<mapsto> ''9e107d9d372bb6826bd81d3542a419d6''] Map.empty)) = Inr True
   \<and> folder_files (fs (snd (check_latest_info_json_md5_changed (example_env []) ''A'' ''win64''
          (stored_world [''A'' \<mapsto> ''9e107d9d372bb6826bd81d3542a419d6''] Map.empty)))
        MD5_HASH_FOLDER) ''A'' = Some ''d41d8cd98f00b204e9800998ecf8427e''"
proof -
  let ?w = "stored_world [''A'' \<mapsto> ''9e107d9d372bb6826bd81d3542a419d6''] Map.empty"
  let ?url = "''https://archive.mozilla.org/pub/firefox/nightly/latest-mozilla-central/firefox-56.0a1.en-US.win64.json''"
  have s: "folder_files (fs ?w MD5_HASH_FOLDER) ''A'' = Some ''9e107d9d372bb6826bd81d3542a419d6''"
    by (simp add: stored_world_def)
  have u: "fst (get_latest_info_json_url_for_md5 (example_env []) ''win64'' ?w) = Some ?url"
    by (simp add: example_url)
  have r: "urlopen_net (example_env []) ?url = Inr \<lparr>getcode = 200, body = []\<rparr>"
    by (simp add: example_env_def ARCHIVE_ROOT_URL_def ARCHIVE_LATEST_FOLDER_def)
  have b: "body \<lparr>getcode = 200, body = []\<rparr> = []" by simp
  have d: "readline ''9e107d9d372bb6826bd81d3542a419d6'' \<noteq> md5_hexdigest (example_env []) []"
    by (simp add: example_env_def newline_def)
  have m: "md5_hexdigest (example_env []) [] = ''d41d8cd98f00b204e9800998ecf8427e''"
    by (simp add: example_env_def)
  from empty_fetch_overwrites_signature [OF s u r b d]
  show ?thesis by (simp add: m)
qed

subsection \<open>Jobs without the required keys\<close>

lemma add_job_jobs: "scheduler_jobs (add_job t w) = scheduler_jobs w @ [t]"
  by (simp add: add_job_def)

lemma add_job_events: "events (add_job t w) = events w"
  by (simp add: add_job_def)

lemma validate_keeps_jobs: "scheduler_jobs (snd (validate_job_config job w)) = scheduler_jobs w"
  by (simp add: validate_job_config_def scheduler_jobs_logging)

lemma validate_keeps_events: "set (events w) \<subseteq> set (events (snd (validate_job_config job w)))"
  by (auto simp: validate_job_config_def events_logging)

lemma add_trigger_jobs_keeps_jobs:
  "t \<in> set (scheduler_jobs w) \<Longrightarrow> t \<in> set (scheduler_jobs (add_trigger_jobs self cfg w))"
proof (induction cfg arbitrary: w)
  case Nil
  then show ?case by simp
next
  case (Cons a cfg)
  obtain name job where a: "a = (name, job)" by (cases a)
  show ?case
    unfolding a
    by (auto simp: case_prod_beta Let_def intro!: Cons.IH
          simp: add_job_jobs scheduler_jobs_logging validate_keeps_jobs Cons.prems)
qed

lemma add_trigger_jobs_keeps_events:
  "ev \<in> set (events w) \<Longrightarrow> ev \<in> set (events (add_trigger_jobs self cfg w))"
proof (induction cfg arbitrary: w)
  case Nil
  then show ?case by simp
next
  case (Cons a cfg)
  obtain name job where a: "a = (name, job)" by (cases a)
  have v: "ev \<in> set (events (snd (validate_job_config job w)))"
    using Cons.prems validate_keeps_events by blast
  show ?case
    unfolding a
    by (auto simp: case_prod_beta Let_def intro!: Cons.IH
          simp: add_job_events events_logging v)
qed


lemma invalid_is_logged:
  assumes "KEY_JOBS_TOPIC job = None \<or> KEY_JOBS_PLATFORM_BUILD job = None \<or> KEY_JOBS_CMD job = None"
  shows "\<not> fst (validate_job_config job w)"
  using assms by (auto simp: validate_job_config_def)

lemma add_trigger_jobs_registers:
  fixes t :: "tasks_trigger \<Rightarrow> string \<Rightarrow> job_detail \<Rightarrow> timer"
  defines "t \<equiv> \<lambda>self job_name job.
         \<lparr>timer_func = Job_pushing_meta_task,
          timer_interval = Minutes (case KEY_JOBS_INTERVAL_MINUTES job of None \<Rightarrow> 10 | Some m \<Rightarrow> m),
          timer_id = job_name,
          max_instances = 1,
          timer_kwargs = Push_kwargs
            \<lparr>kw_username = pulse_username self,
             kw_password = pulse_password self,
             kw_command_config = cmd_config_obj self,
             kw_job_name = job_name,
             kw_topic = KEY_JOBS_TOPIC job,
             kw_amount = (case KEY_JOBS_AMOUNT job of None \<Rightarrow> 1 | Some a \<Rightarrow> a),
             kw_platform_build = KEY_JOBS_PLATFORM_BUILD job,
             kw_cmd_name = KEY_JOBS_CMD job,
             kw_overwrite_cmd_config = (case KEY_JOBS_CONFIGS job of None \<Rightarrow> [] | Some c \<Rightarrow> c)\<rparr>\<rparr>"
  assumes "(job_name, job) \<in> set cfg"
    and "KEY_JOBS_ENABLE job = Some True"
  shows "t self job_name job \<in> set (scheduler_jobs (add_trigger_jobs self cfg w))"
  using assms(2)
proof (induction cfg arbitrary: w)
  case Nil
  then show ?case by simp
next
  case (Cons a cfg)
  obtain name jb where a: "a = (name, jb)" by (cases a)
  have step: "add_trigger_jobs self ((name, jb) # cfg) w =
     (let w2 = (if \<not> fst (validate_job_config jb w) then
                  logging ERROR ''There is not valid job.'' [AStr name, AJob jb]
                    (snd (validate_job_config jb w))
                else snd (validate_job_config jb w))
      in if (case KEY_JOBS_ENABLE jb of None \<Rightarrow> False | Some b \<Rightarrow> b) then
           add_trigger_jobs self cfg
             (add_job (t self name jb) (logging INFO ''Job [{}] is enabled.'' [AStr name] w2))
         else add_trigger_jobs self cfg
                (logging INFO ''Job [{}] is disabled.'' [AStr name] w2))"
    by (simp add: case_prod_beta Let_def t_def)
  from Cons.prems a have "(name = job_name \<and> jb = job) \<or> (job_name, job) \<in> set cfg" by auto
  then show ?case
  proof
    assume h: "name = job_name \<and> jb = job"
    show ?thesis
      unfolding a step Let_def
      using h assms(3)
      by (simp del: add_trigger_jobs.simps)
         (intro conjI impI; rule add_trigger_jobs_keeps_jobs; simp add: add_job_jobs)
  next
    assume h: "(job_name, job) \<in> set cfg"
    show ?thesis
      unfolding a step Let_def
      by (simp del: add_trigger_jobs.simps add: Cons.IH [OF h])
  qed
qed

lemma add_trigger_jobs_logs_invalid:
  assumes "(job_name, job) \<in> set cfg"
    and "KEY_JOBS_TOPIC job = None \<or> KEY_JOBS_PLATFORM_BUILD job = None \<or> KEY_JOBS_CMD job = None"
  shows "Log ERROR ''There is not valid job.'' [AStr job_name, AJob job]
         \<in> set (events (add_trigger_jobs self cfg w))"
  using assms(1)
proof (induction cfg arbitrary: w)
  case Nil
  then show ?case by simp
next
  case (Cons a cfg)
  obtain name jb where a: "a = (name, jb)" by (cases a)
  define t where "t =
         \<lparr>timer_func = Job_pushing_meta_task,
          timer_interval = Minutes (case KEY_JOBS_INTERVAL_MINUTES jb of None \<Rightarrow> 10 | Some m \<Rightarrow> m),
          timer_id = name,
          max_instances = 1,
          timer_kwargs = Push_kwargs
            \<lparr>kw_username = pulse_username self,
             kw_password = pulse_password self,
             kw_command_config = cmd_config_obj self,
             kw_job_name = name,
             kw_topic = KEY_JOBS_TOPIC jb,
             kw_amount = (case KEY_JOBS_AMOUNT jb of None \<Rightarrow> 1 | Some a \<Rightarrow> a),
             kw_platform_build = KEY_JOBS_PLATFORM_BUILD jb,
             kw_cmd_name = KEY_JOBS_CMD jb,
             kw_overwrite_cmd_config = (case KEY_JOBS_CONFIGS jb of None \<Rightarrow> [] | Some c \<Rightarrow> c)\<rparr>\<rparr>"
  have step: "add_trigger_jobs self ((name, jb) # cfg) w =
     (let w2 = (if \<not> fst (validate_job_config jb w) then
                  logging ERROR ''There is not valid job.'' [AStr name, AJob jb]
                    (snd (validate_job_config jb w))
                else snd (validate_job_config jb w))
      in if (case KEY_JOBS_ENABLE jb of None \<Rightarrow> False | Some b \<Rightarrow> b) then
           add_trigger_jobs self cfg
             (add_job t (logging INFO ''Job [{}] is enabled.'' [AStr name] w2))
         else add_trigger_jobs self cfg
                (logging INFO ''Job [{}] is disabled.'' [AStr name] w2))"
    by (simp add: case_prod_beta Let_def t_def)
  from Cons.prems a have "(name = job_name \<and> jb = job) \<or> (job_name, job) \<in> set cfg" by auto
  then show ?case
  proof
    assume h: "name = job_name \<and> jb = job"
    have n: "\<not> fst (validate_job_config job w)" using assms(2) by (rule invalid_is_logged)
    show ?thesis
      unfolding a step Let_def
      using h n
      by (simp del: add_trigger_jobs.simps)
         (intro conjI impI; rule add_trigger_jobs_keeps_events;
          simp add: add_job_events events_logging)
  next
    assume h: "(job_name, job) \<in> set cfg"
    show ?thesis
      unfolding a step Let_def
      by (simp del: add_trigger_jobs.simps add: Cons.IH [OF h])
  qed
qed

text \<open>
  C1 says that a job that misses one of the keys \<^verbatim>\<open>topic\<close>, \<^verbatim>\<open>platform_build\<close> and
  \<^verbatim>\<open>cmd\<close> is logged as invalid and never gets a timer, whatever its \<^verbatim>\<open>enable\<close> flag.
  The code does otherwise for an enabled job: \<^verbatim>\<open>run\<close> logs the job as not valid and
  goes on with it, so that \<^verbatim>\<open>add_job\<close> registers a timer whose id is the name of the
  job, with \<^verbatim>\<open>None\<close> for the missing arguments.
\<close>

theorem invalid_enabled_job_is_registered:
  assumes "(job_name, job) \<in> set (jobs_config self)"
    and "KEY_JOBS_TOPIC job = None \<or> KEY_JOBS_PLATFORM_BUILD job = None \<or> KEY_JOBS_CMD job = None"
    and "KEY_JOBS_ENABLE job = Some True"
  shows "Log ERROR ''There is not valid job.'' [AStr job_name, AJob job]
           \<in> set (events (run self skip_first_query w))
       \<and> \<lparr>timer_func = Job_pushing_meta_task,
          timer_interval = Minutes (case KEY_JOBS_INTERVAL_MINUTES job of None \<Rightarrow> 10 | Some m \<Rightarrow> m),
          timer_id = job_name,
          max_instances = 1,
          timer_kwargs = Push_kwargs
            \<lparr>kw_username = pulse_username self,
             kw_password = pulse_password self,
             kw_command_config = cmd_config_obj self,
             kw_job_name = job_name,
             kw_topic = KEY_JOBS_TOPIC job,
             kw_amount = (case KEY_JOBS_AMOUNT job of None \<Rightarrow> 1 | Some a \<Rightarrow> a),
             kw_platform_build = KEY_JOBS_PLATFORM_BUILD job,
             kw_cmd_name = KEY_JOBS_CMD job,
             kw_overwrite_cmd_config = (case KEY_JOBS_CONFIGS job of None \<Rightarrow> [] | Some c \<Rightarrow> c)\<rparr>\<rparr>
           \<in> set (scheduler_jobs (run self skip_first_query w))
       \<and> job_name \<in> timer_id ` set (scheduler_jobs (run self skip_first_query w))"
proof -
  let ?t = "\<lparr>timer_func = Job_pushing_meta_task,
          timer_interval = Minutes (case KEY_JOBS_INTERVAL_MINUTES job of None \<Rightarrow> 10 | Some m \<Rightarrow> m),
          timer_id = job_name,
          max_instances = 1,
          timer_kwargs = Push_kwargs
            \<lparr>kw_username = pulse_username self,
             kw_password = pulse_password self,
             kw_command_config = cmd_config_obj self,
             kw_job_name = job_name,
             kw_topic = KEY_JOBS_TOPIC job,
             kw_amount = (case KEY_JOBS_AMOUNT job of None \<Rightarrow> 1 | Some a \<Rightarrow> a),
             kw_platform_build = KEY_JOBS_PLATFORM_BUILD job,
             kw_cmd_name = KEY_JOBS_CMD job,
             kw_overwrite_cmd_config = (case KEY_JOBS_CONFIGS job of None \<Rightarrow> [] | Some c \<Rightarrow> c)\<rparr>\<rparr>"
  have l: "Log ERROR ''There is not valid job.'' [AStr job_name, AJob job]
           \<in> set (events (run self skip_first_query w))"
    by (simp add: run_def case_prod_beta Let_def add_trigger_jobs_logs_invalid [OF assms(1,2)])
  have t: "?t \<in> set (scheduler_jobs (run self skip_first_query w))"
    by (simp only: run_def case_prod_beta Let_def add_trigger_jobs_registers [OF assms(1,3)])
  have "timer_id ?t = job_name" by simp
  with t have "job_name \<in> timer_id ` set (scheduler_jobs (run self skip_first_query w))"
    by (metis imageI)
  with l t show ?thesis by simp
qed

theorem invalid_enabled_job_is_registered_witness:
  "map timer_id (scheduler_jobs (run \<lparr>jobs_config = [(''bad'', job_without_required_keys)],
                                      pulse_username = ''user'', pulse_password = ''secret'',
                                      suite_white_list_for_signature = [],
                                      cmd_config_obj = []\<rparr> True fresh_world))
     = [''trigger_mgt_listener'', ''query_backfill_table_win64'', ''bad'']
   \<and> Log ERROR ''There is not valid job.'' [AStr ''bad'', AJob job_without_required_keys]
       \<in> set (events (run \<lparr>jobs_config = [(''bad'', job_without_required_keys)],
                            pulse_username = ''user'', pulse_password = ''secret'',
                            suite_white_list_for_signature = [],
                            cmd_config_obj = []\<rparr> True fresh_world))"
proof -
  let ?self = "\<lparr>jobs_config = [(''bad'', job_without_required_keys)],
                 pulse_username = ''user'', pulse_password = ''secret'',
                 suite_white_list_for_signature = [], cmd_config_obj = []\<rparr>"
  have m: "(''bad'', job_without_required_keys) \<in> set (jobs_config ?self)" by simp
  have i: "KEY_JOBS_TOPIC job_without_required_keys = None
         \<or> KEY_JOBS_PLATFORM_BUILD job_without_required_keys = None
         \<or> KEY_JOBS_CMD job_without_required_keys = None"
    by (simp add: job_without_required_keys_def)
  have en: "KEY_JOBS_ENABLE job_without_required_keys = Some True"
    by (simp add: job_without_required_keys_def)
  have ids: "map timer_id (scheduler_jobs (run ?self True fresh_world))
     = [''trigger_mgt_listener'', ''query_backfill_table_win64'', ''bad'']"
    by (simp add: run_def get_enabled_platform_list_from_trigger_jobs_config_def Let_def
          job_without_required_keys_def validate_job_config_def add_job_def logging_def emit_def
          fresh_world_def)
  from invalid_enabled_job_is_registered [OF m i en, of True fresh_world]
  show ?thesis using ids by simp
qed

end
